theory Spec2Isabelle
  imports Complex_Main
begin

section \<open>Ecosystem simulation: the organism hierarchy and the environment\<close>

text \<open>
  A shallow embedding of \<^verbatim>\<open>ecosystem_simulation_system.py\<close>. Objects live in a store that
  maps references to organisms, because \<^verbatim>\<open>hunt\<close> and \<^verbatim>\<open>interact\<close> mutate two objects that
  the caller and the environment's list both see. Exceptions are values of the type
  \<open>error\<close>; the module-level random generator is an explicit argument that every draw
  advances. Numbers are Python's: unbounded integers, computed exactly, and floats,
  whose operations are those of the interpreter and are taken as a parameter.
\<close>

subsection \<open>Errors and dynamic values\<close>

datatype error =
  InvalidInputException | OrganismNotFoundException
  | ZeroDivisionError | OverflowError | IndexError | AttributeError

text \<open>The constructor's \<^verbatim>\<open>id\<close> argument is dynamically typed; these are the values it is
  tested against.\<close>

datatype pyval = PyStr string | PyInt int | PyBool bool | PyNone

fun isinstance_str :: "pyval \<Rightarrow> bool" where
  "isinstance_str (PyStr s) = True"
| "isinstance_str (PyInt n) = False"
| "isinstance_str (PyBool b) = False"
| "isinstance_str PyNone = False"

text \<open>Truthiness, as \<^verbatim>\<open>not id\<close> reads it.\<close>

fun truthy :: "pyval \<Rightarrow> bool" where
  "truthy (PyStr s) = (s \<noteq> [])"
| "truthy (PyInt n) = (n \<noteq> 0)"
| "truthy (PyBool b) = b"
| "truthy PyNone = False"

fun str_of :: "pyval \<Rightarrow> string" where
  "str_of (PyStr s) = s"
| "str_of (PyInt n) = []"
| "str_of (PyBool b) = []"
| "str_of PyNone = []"

subsection \<open>Numbers\<close>

text \<open>
  A float is a finite value, an infinity or not-a-number (the two zeros are one value:
  nothing here tells them apart). A number is an \<^verbatim>\<open>int\<close> or a \<^verbatim>\<open>float\<close>.
\<close>

datatype fl = Fin real | PosInf | NegInf | NaN

datatype num = PInt int | PFloat fl

text \<open>
  What the interpreter and the hardware compute, taken as parameters: the four float
  operations (\<open>fdiv\<close> is called on a non-zero divisor only), the conversion of an
  integer beyond \<open>2 ^ 53\<close> to a float and the true division of two integers (\<open>None\<close>
  when the result is too large for a float, where Python raises \<^verbatim>\<open>OverflowError\<close>), the
  float that a decimal literal denotes, and \<^verbatim>\<open>str.lower\<close>. Every theorem below holds for
  all values of these parameters.
\<close>

record prims =
  fadd :: "fl \<Rightarrow> fl \<Rightarrow> fl"
  fsub :: "fl \<Rightarrow> fl \<Rightarrow> fl"
  fmul :: "fl \<Rightarrow> fl \<Rightarrow> fl"
  fdiv :: "fl \<Rightarrow> fl \<Rightarrow> fl"
  big_int_to_float :: "int \<Rightarrow> fl option"
  int_truediv :: "int \<Rightarrow> int \<Rightarrow> fl option"
  literal :: "real \<Rightarrow> fl"
  str_lower :: "string \<Rightarrow> string"

text \<open>Comparisons never raise and are exact, also between an integer and a float; every
  comparison with not-a-number is false.\<close>

fun fl_lt :: "fl \<Rightarrow> fl \<Rightarrow> bool" where
  "fl_lt NaN y = False"
| "fl_lt x NaN = False"
| "fl_lt (Fin x) (Fin y) = (x < y)"
| "fl_lt (Fin x) PosInf = True"
| "fl_lt (Fin x) NegInf = False"
| "fl_lt PosInf y = False"
| "fl_lt NegInf NegInf = False"
| "fl_lt NegInf y = True"

fun fl_le :: "fl \<Rightarrow> fl \<Rightarrow> bool" where
  "fl_le NaN y = False"
| "fl_le x NaN = False"
| "fl_le (Fin x) (Fin y) = (x \<le> y)"
| "fl_le (Fin x) PosInf = True"
| "fl_le (Fin x) NegInf = False"
| "fl_le PosInf PosInf = True"
| "fl_le PosInf y = False"
| "fl_le NegInf y = True"

fun extended :: "num \<Rightarrow> fl" where
  "extended (PInt a) = Fin (of_int a)"
| "extended (PFloat f) = f"

definition py_lt :: "num \<Rightarrow> num \<Rightarrow> bool" where
  "py_lt x y = fl_lt (extended x) (extended y)"

definition py_le :: "num \<Rightarrow> num \<Rightarrow> bool" where
  "py_le x y = fl_le (extended x) (extended y)"

text \<open>\<^verbatim>\<open>max(a, b)\<close> is \<open>b\<close> when \<^verbatim>\<open>b > a\<close> and \<open>a\<close> otherwise; \<^verbatim>\<open>min(a, b)\<close> is \<open>b\<close> when
  \<^verbatim>\<open>b < a\<close> and \<open>a\<close> otherwise.\<close>

definition py_max :: "num \<Rightarrow> num \<Rightarrow> num" where
  "py_max a b = (if py_lt a b then b else a)"

definition py_min :: "num \<Rightarrow> num \<Rightarrow> num" where
  "py_min a b = (if py_lt b a then b else a)"

text \<open>An integer operand of a float operation is converted first: exactly up to
  \<open>2 ^ 53\<close>, and beyond that as the interpreter rounds it, with \<^verbatim>\<open>OverflowError\<close> when it
  is too large.\<close>

fun to_float :: "prims \<Rightarrow> num \<Rightarrow> error + fl" where
  "to_float P (PFloat f) = Inr f"
| "to_float P (PInt a) =
     (if \<bar>a\<bar> \<le> 2 ^ 53 then Inr (Fin (of_int a))
      else (case big_int_to_float P a of None \<Rightarrow> Inl OverflowError | Some f \<Rightarrow> Inr f))"

text \<open>\<^verbatim>\<open>+\<close>, \<^verbatim>\<open>-\<close> and \<^verbatim>\<open>*\<close>: exact on two integers, the float operation otherwise.\<close>

fun arith ::
  "(int \<Rightarrow> int \<Rightarrow> int) \<Rightarrow> (fl \<Rightarrow> fl \<Rightarrow> fl) \<Rightarrow> prims \<Rightarrow> num \<Rightarrow> num \<Rightarrow> error + num" where
  "arith iop fop P (PInt a) (PInt b) = Inr (PInt (iop a b))"
| "arith iop fop P x y =
     (case to_float P x of
        Inl err \<Rightarrow> Inl err
      | Inr fx \<Rightarrow>
          (case to_float P y of
             Inl err \<Rightarrow> Inl err
           | Inr fy \<Rightarrow> Inr (PFloat (fop fx fy))))"

definition py_add :: "prims \<Rightarrow> num \<Rightarrow> num \<Rightarrow> error + num" where
  "py_add P x y = arith (\<lambda>a b. a + b) (fadd P) P x y"

definition py_sub :: "prims \<Rightarrow> num \<Rightarrow> num \<Rightarrow> error + num" where
  "py_sub P x y = arith (\<lambda>a b. a - b) (fsub P) P x y"

definition py_mul :: "prims \<Rightarrow> num \<Rightarrow> num \<Rightarrow> error + num" where
  "py_mul P x y = arith (\<lambda>a b. a * b) (fmul P) P x y"

text \<open>\<^verbatim>\<open>/\<close>: always a float; a zero divisor raises \<^verbatim>\<open>ZeroDivisionError\<close>, after the
  conversion of an integer operand of a float division.\<close>

fun py_truediv :: "prims \<Rightarrow> num \<Rightarrow> num \<Rightarrow> error + num" where
  "py_truediv P (PInt a) (PInt b) =
     (if b = 0 then Inl ZeroDivisionError
      else (case int_truediv P a b of
              None \<Rightarrow> Inl OverflowError
            | Some f \<Rightarrow> Inr (PFloat f)))"
| "py_truediv P x y =
     (case to_float P x of
        Inl err \<Rightarrow> Inl err
      | Inr fx \<Rightarrow>
          (case to_float P y of
             Inl err \<Rightarrow> Inl err
           | Inr fy \<Rightarrow>
               if fy = Fin 0 then Inl ZeroDivisionError else Inr (PFloat (fdiv P fx fy))))"

text \<open>What a method hands back: \<^verbatim>\<open>None\<close>, a boolean or a number.\<close>

datatype retval = RNone | RBool bool | RNum num

subsection \<open>The class hierarchy\<close>

text \<open>
  \<^verbatim>\<open>Organism\<close> is the base class; \<^verbatim>\<open>Plant\<close> and \<^verbatim>\<open>Animal\<close> extend it; \<^verbatim>\<open>Herbivore\<close> and
  \<^verbatim>\<open>Carnivore\<close> extend \<^verbatim>\<open>Animal\<close>. An object is a record of all attributes with the tag
  of its class; an attribute is read only on instances of the class that declares it
  (\<open>growth_rate\<close> on plants, \<open>speed\<close>, \<open>diet_type\<close> and \<open>food_eaten\<close> on animals,
  \<open>plant_preference\<close> on herbivores, \<open>hunting_efficiency\<close> on carnivores).
\<close>

datatype klass = Organism | Plant | Animal | Herbivore | Carnivore

record organism =
  cls :: klass
  id' :: string
  species_name :: string
  energy :: num
  is_alive :: bool
  growth_rate :: num
  speed :: num
  diet_type :: string
  food_eaten :: nat
  plant_preference :: string
  hunting_efficiency :: num

fun is_subclass :: "klass \<Rightarrow> klass \<Rightarrow> bool" where
  "is_subclass c Organism = True"
| "is_subclass c Animal = (c = Animal \<or> c = Herbivore \<or> c = Carnivore)"
| "is_subclass c Plant = (c = Plant)"
| "is_subclass c Herbivore = (c = Herbivore)"
| "is_subclass c Carnivore = (c = Carnivore)"

definition isinstance :: "organism \<Rightarrow> klass \<Rightarrow> bool" where
  "isinstance org c = is_subclass (cls org) c"

type_synonym ref = nat
type_synonym heap = "ref \<Rightarrow> organism"

subsection \<open>Organism\<close>

text \<open>\<^verbatim>\<open>Organism.__init__\<close>, with the class counter \<^verbatim>\<open>organism_count\<close> it increments.\<close>

definition Organism_init ::
  "pyval \<Rightarrow> string \<Rightarrow> num \<Rightarrow> bool \<Rightarrow> nat \<Rightarrow> error + (organism \<times> nat)" where
  "Organism_init ident species e alive organism_count =
     (if \<not> isinstance_str ident \<or> \<not> truthy ident then Inl InvalidInputException
      else Inr (\<lparr>cls = Organism, id' = str_of ident, species_name = species, energy = e,
                  is_alive = alive, growth_rate = PInt 0, speed = PInt 0, diet_type = [],
                  food_eaten = 0, plant_preference = [], hunting_efficiency = PInt 0\<rparr>,
                organism_count + 1))"

definition Plant_init ::
  "pyval \<Rightarrow> string \<Rightarrow> num \<Rightarrow> bool \<Rightarrow> num \<Rightarrow> nat \<Rightarrow> error + (organism \<times> nat)" where
  "Plant_init ident species e alive rate organism_count =
     (case Organism_init ident species e alive organism_count of
        Inl err \<Rightarrow> Inl err
      | Inr (org, n) \<Rightarrow> Inr (org\<lparr>cls := Plant, growth_rate := rate\<rparr>, n))"

definition Animal_init ::
  "pyval \<Rightarrow> string \<Rightarrow> num \<Rightarrow> bool \<Rightarrow> num \<Rightarrow> string \<Rightarrow> nat \<Rightarrow> error + (organism \<times> nat)" where
  "Animal_init ident species e alive spd diet organism_count =
     (case Organism_init ident species e alive organism_count of
        Inl err \<Rightarrow> Inl err
      | Inr (org, n) \<Rightarrow>
          Inr (org\<lparr>cls := Animal, speed := spd, diet_type := diet, food_eaten := 0\<rparr>, n))"

definition Herbivore_init ::
  "pyval \<Rightarrow> string \<Rightarrow> num \<Rightarrow> bool \<Rightarrow> num \<Rightarrow> string \<Rightarrow> string \<Rightarrow> nat
     \<Rightarrow> error + (organism \<times> nat)" where
  "Herbivore_init ident species e alive spd diet preference organism_count =
     (case Animal_init ident species e alive spd diet organism_count of
        Inl err \<Rightarrow> Inl err
      | Inr (org, n) \<Rightarrow> Inr (org\<lparr>cls := Herbivore, plant_preference := preference\<rparr>, n))"

definition Carnivore_init ::
  "pyval \<Rightarrow> string \<Rightarrow> num \<Rightarrow> bool \<Rightarrow> num \<Rightarrow> string \<Rightarrow> num \<Rightarrow> nat
     \<Rightarrow> error + (organism \<times> nat)" where
  "Carnivore_init ident species e alive spd diet efficiency organism_count =
     (case Animal_init ident species e alive spd diet organism_count of
        Inl err \<Rightarrow> Inl err
      | Inr (org, n) \<Rightarrow> Inr (org\<lparr>cls := Carnivore, hunting_efficiency := efficiency\<rparr>, n))"

text \<open>The \<^verbatim>\<open>energy\<close> property setter: \<^verbatim>\<open>max(0, value)\<close>, then dead when that is
  \<^verbatim>\<open><= 0\<close>. Nothing else writes \<^verbatim>\<open>_energy\<close> after construction, and nothing writes
  \<^verbatim>\<open>_is_alive\<close>.\<close>

definition energy_setter :: "num \<Rightarrow> organism \<Rightarrow> organism" where
  "energy_setter v org =
     (let org1 = org\<lparr>energy := py_max (PInt 0) v\<rparr>
      in if py_le (energy org1) (PInt 0) then org1\<lparr>is_alive := False\<rparr> else org1)"

text \<open>\<^verbatim>\<open>consume_energy\<close>: \<^verbatim>\<open>self.energy -= amount\<close> reads the energy, subtracts (which may
  raise) and assigns through the setter.\<close>

definition consume_energy :: "prims \<Rightarrow> num \<Rightarrow> organism \<Rightarrow> error + (bool \<times> organism)" where
  "consume_energy P amount org =
     (case py_sub P (energy org) amount of
        Inl err \<Rightarrow> Inl err
      | Inr v \<Rightarrow> (let org1 = energy_setter v org in Inr (is_alive org1, org1)))"

text \<open>\<^verbatim>\<open>Organism.interact\<close>: the base implementation, inherited by \<^verbatim>\<open>Animal\<close>.\<close>

definition Organism_interact :: "ref \<Rightarrow> ref \<Rightarrow> heap \<Rightarrow> bool \<times> heap" where
  "Organism_interact self other h = (False, h)"

subsection \<open>Plant\<close>

definition weather_factors :: "prims \<Rightarrow> (string \<times> fl) list" where
  "weather_factors P =
     [(''sunny'', literal P 1), (''cloudy'', literal P (6 / 10)), (''rainy'', literal P (3 / 10))]"

definition weather_factor :: "prims \<Rightarrow> string \<Rightarrow> num" where
  "weather_factor P w =
     PFloat (case map_of (weather_factors P) w of Some f \<Rightarrow> f | None \<Rightarrow> literal P (5 / 10))"

text \<open>\<^verbatim>\<open>photosynthesize\<close>: the product \<^verbatim>\<open>10 * growth_rate * factor\<close> is computed from the
  left; an exception leaves the plant as it was.\<close>

definition photosynthesize :: "prims \<Rightarrow> string \<Rightarrow> organism \<Rightarrow> error + (num \<times> organism)" where
  "photosynthesize P weather_condition p =
     (let factor = weather_factor P weather_condition
      in case py_mul P (PInt 10) (growth_rate p) of
           Inl err \<Rightarrow> Inl err
         | Inr tenfold \<Rightarrow>
             (case py_mul P tenfold factor of
                Inl err \<Rightarrow> Inl err
              | Inr energy_gain \<Rightarrow>
                  (case py_add P (energy p) energy_gain of
                     Inl err \<Rightarrow> Inl err
                   | Inr v \<Rightarrow> Inr (energy_gain, energy_setter v p))))"

definition Plant_interact :: "prims \<Rightarrow> ref \<Rightarrow> ref \<Rightarrow> heap \<Rightarrow> (error + bool) \<times> heap" where
  "Plant_interact P self other h =
     (if isinstance (h other) Herbivore \<and> is_alive (h self) then
        let energy_transfer = py_min (PInt 25) (energy (h self))
        in case py_add P (energy (h other)) energy_transfer of
             Inl err \<Rightarrow> (Inl err, h)
           | Inr v1 \<Rightarrow>
               let h1 = h(other := energy_setter v1 (h other))
               in (case py_sub P (energy (h1 self)) energy_transfer of
                     Inl err \<Rightarrow> (Inl err, h1)
                   | Inr v2 \<Rightarrow> (Inr True, h1(self := energy_setter v2 (h1 self))))
      else (Inr False, h))"

subsection \<open>The random generator\<close>

text \<open>
  The generator is a supply of future draws: \<open>floats\<close> are the values of successive
  \<^verbatim>\<open>random.random()\<close> calls, \<open>ints\<close> the integers behind successive
  \<^verbatim>\<open>random.choice\<close> calls, reduced to an index of the sequence. \<^verbatim>\<open>random.choice\<close> of
  an empty sequence raises \<^verbatim>\<open>IndexError\<close>.
\<close>

record rng =
  floats :: "nat \<Rightarrow> real"
  ints :: "nat \<Rightarrow> nat"

definition random_random :: "rng \<Rightarrow> num \<times> rng" where
  "random_random g = (PFloat (Fin (floats g 0)), g\<lparr>floats := \<lambda>n. floats g (Suc n)\<rparr>)"

definition random_choice :: "'a list \<Rightarrow> rng \<Rightarrow> error + ('a \<times> rng)" where
  "random_choice seq g =
     (if seq = [] then Inl IndexError
      else Inr (seq ! (ints g 0 mod length seq), g\<lparr>ints := \<lambda>n. ints g (Suc n)\<rparr>))"

subsection \<open>Animal, Herbivore, Carnivore\<close>

text \<open>\<^verbatim>\<open>Animal.hunt\<close>: the body is \<^verbatim>\<open>pass\<close>, so the call returns \<^verbatim>\<open>None\<close>.\<close>

definition Animal_hunt :: "ref \<Rightarrow> ref list \<Rightarrow> heap \<Rightarrow> retval \<times> heap" where
  "Animal_hunt self prey_organisms h = (RNone, h)"

text \<open>\<^verbatim>\<open>Herbivore.hunt\<close>. The preference is compared through \<^verbatim>\<open>str.lower\<close>. Of the two
  assignments only the first addition can raise; the model keeps both paths.\<close>

definition Herbivore_hunt ::
  "prims \<Rightarrow> ref \<Rightarrow> ref list \<Rightarrow> rng \<Rightarrow> heap \<Rightarrow> (error + bool) \<times> rng \<times> heap" where
  "Herbivore_hunt P self prey_organisms g h =
     (if \<not> is_alive (h self) then (Inr False, g, h)
      else
        let available_plants =
              filter (\<lambda>org. isinstance (h org) Plant \<and> is_alive (h org)) prey_organisms
        in if available_plants = [] then (Inr False, g, h)
        else
          let preferred_plants =
                filter (\<lambda>p. str_lower P (species_name (h p))
                             = str_lower P (plant_preference (h self)))
                  available_plants
          in case random_choice
                    (if preferred_plants \<noteq> [] then preferred_plants else available_plants) g of
               Inl err \<Rightarrow> (Inl err, g, h)
             | Inr (target_plant, g1) \<Rightarrow>
                 let energy_gain = py_min (energy (h target_plant)) (PInt 25)
                 in (case py_add P (energy (h self)) energy_gain of
                       Inl err \<Rightarrow> (Inl err, g1, h)
                     | Inr v1 \<Rightarrow>
                         let h1 = h(self := energy_setter v1 (h self))
                         in (case py_sub P (energy (h1 target_plant)) energy_gain of
                               Inl err \<Rightarrow> (Inl err, g1, h1)
                             | Inr v2 \<Rightarrow>
                                 let h2 = h1(target_plant := energy_setter v2 (h1 target_plant));
                                     h3 = h2(self := (h2 self)
                                            \<lparr>food_eaten := food_eaten (h2 self) + 1\<rparr>)
                                 in (Inr True, g1, h3))))"

definition Herbivore_interact :: "prims \<Rightarrow> ref \<Rightarrow> ref \<Rightarrow> heap \<Rightarrow> (error + bool) \<times> heap" where
  "Herbivore_interact P self other h =
     (if isinstance (h other) Plant \<and> is_alive (h self) \<and> is_alive (h other) then
        let energy_transfer = py_min (PInt 25) (energy (h other))
        in case py_add P (energy (h self)) energy_transfer of
             Inl err \<Rightarrow> (Inl err, h)
           | Inr v1 \<Rightarrow>
               let h1 = h(self := energy_setter v1 (h self))
               in (case py_sub P (energy (h1 other)) energy_transfer of
                     Inl err \<Rightarrow> (Inl err, h1)
                   | Inr v2 \<Rightarrow>
                       let h2 = h1(other := energy_setter v2 (h1 other));
                           h3 = h2(self := (h2 self)\<lparr>food_eaten := food_eaten (h2 self) + 1\<rparr>)
                       in (Inr True, h3))
      else (Inr False, h))"

text \<open>The success chance of a hunt,
  \<^verbatim>\<open>self._hunting_efficiency * (self._speed / (target_prey.speed + 1))\<close>, and the energy
  gain of a successful one, \<^verbatim>\<open>min(target_prey.energy * 0.7, 50)\<close>.\<close>

definition success_chance :: "prims \<Rightarrow> organism \<Rightarrow> organism \<Rightarrow> error + num" where
  "success_chance P hunter target_prey =
     (case py_add P (speed target_prey) (PInt 1) of
        Inl err \<Rightarrow> Inl err
      | Inr divisor \<Rightarrow>
          (case py_truediv P (speed hunter) divisor of
             Inl err \<Rightarrow> Inl err
           | Inr ratio \<Rightarrow> py_mul P (hunting_efficiency hunter) ratio))"

definition hunt_gain :: "prims \<Rightarrow> organism \<Rightarrow> error + num" where
  "hunt_gain P target_prey =
     (case py_mul P (energy target_prey) (PFloat (literal P (7 / 10))) of
        Inl err \<Rightarrow> Inl err
      | Inr share \<Rightarrow> Inr (py_min share (PInt 50)))"

text \<open>\<^verbatim>\<open>Carnivore.hunt\<close>. Every exception is raised before anything is mutated.\<close>

definition Carnivore_hunt ::
  "prims \<Rightarrow> ref \<Rightarrow> ref list \<Rightarrow> rng \<Rightarrow> heap \<Rightarrow> (error + bool) \<times> rng \<times> heap" where
  "Carnivore_hunt P self prey_organisms g h =
     (if \<not> is_alive (h self) then (Inr False, g, h)
      else
        let available_prey =
              filter (\<lambda>org. isinstance (h org) Herbivore \<and> is_alive (h org)) prey_organisms
        in if available_prey = [] then (Inr False, g, h)
        else
          case random_choice available_prey g of
            Inl err \<Rightarrow> (Inl err, g, h)
          | Inr (target_prey, g1) \<Rightarrow>
              (case success_chance P (h self) (h target_prey) of
                 Inl err \<Rightarrow> (Inl err, g1, h)
               | Inr chance \<Rightarrow>
                   let (r, g2) = random_random g1
                   in if py_le r chance then
                        (case hunt_gain P (h target_prey) of
                           Inl err \<Rightarrow> (Inl err, g2, h)
                         | Inr energy_gain \<Rightarrow>
                             (case py_add P (energy (h self)) energy_gain of
                                Inl err \<Rightarrow> (Inl err, g2, h)
                              | Inr v \<Rightarrow>
                                  let h1 = h(self := energy_setter v (h self));
                                      h2 = h1(target_prey := energy_setter (PInt 0) (h1 target_prey));
                                      h3 = h2(self := (h2 self)
                                             \<lparr>food_eaten := food_eaten (h2 self) + 1\<rparr>)
                                  in (Inr True, g2, h3)))
                      else
                        (case consume_energy P (PInt 5) (h self) of
                           Inl err \<Rightarrow> (Inl err, g2, h)
                         | Inr (alive, org1) \<Rightarrow> (Inr False, g2, h(self := org1)))))"

definition Carnivore_interact ::
  "prims \<Rightarrow> ref \<Rightarrow> ref \<Rightarrow> rng \<Rightarrow> heap \<Rightarrow> (error + bool) \<times> rng \<times> heap" where
  "Carnivore_interact P self other g h =
     (if isinstance (h other) Herbivore \<and> is_alive (h self) \<and> is_alive (h other) then
        let (r, g1) = random_random g
        in if py_le r (hunting_efficiency (h self)) then
             let energy_transfer = py_min (PInt 40) (energy (h other))
             in (case py_add P (energy (h self)) energy_transfer of
                   Inl err \<Rightarrow> (Inl err, g1, h)
                 | Inr v \<Rightarrow>
                     let h1 = h(self := energy_setter v (h self));
                         h2 = h1(other := energy_setter (PInt 0) (h1 other));
                         h3 = h2(self := (h2 self)\<lparr>food_eaten := food_eaten (h2 self) + 1\<rparr>)
                     in (Inr True, g1, h3))
           else (Inr False, g1, h)
      else (Inr False, g, h))"

text \<open>Method lookup on the class of the receiver. \<^verbatim>\<open>Organism\<close> and \<^verbatim>\<open>Plant\<close> have no
  \<^verbatim>\<open>hunt\<close>; only \<^verbatim>\<open>Plant\<close> has \<^verbatim>\<open>photosynthesize\<close>.\<close>

definition hunt ::
  "prims \<Rightarrow> ref \<Rightarrow> ref list \<Rightarrow> rng \<Rightarrow> heap \<Rightarrow> (error + retval) \<times> rng \<times> heap" where
  "hunt P self prey_organisms g h =
     (case cls (h self) of
        Organism \<Rightarrow> (Inl AttributeError, g, h)
      | Plant \<Rightarrow> (Inl AttributeError, g, h)
      | Animal \<Rightarrow> (case Animal_hunt self prey_organisms h of (v, h1) \<Rightarrow> (Inr v, g, h1))
      | Herbivore \<Rightarrow>
          (case Herbivore_hunt P self prey_organisms g h of
             (Inl err, g1, h1) \<Rightarrow> (Inl err, g1, h1)
           | (Inr b, g1, h1) \<Rightarrow> (Inr (RBool b), g1, h1))
      | Carnivore \<Rightarrow>
          (case Carnivore_hunt P self prey_organisms g h of
             (Inl err, g1, h1) \<Rightarrow> (Inl err, g1, h1)
           | (Inr b, g1, h1) \<Rightarrow> (Inr (RBool b), g1, h1)))"

definition interact ::
  "prims \<Rightarrow> ref \<Rightarrow> ref \<Rightarrow> rng \<Rightarrow> heap \<Rightarrow> (error + bool) \<times> rng \<times> heap" where
  "interact P self other g h =
     (case cls (h self) of
        Organism \<Rightarrow> (case Organism_interact self other h of (b, h1) \<Rightarrow> (Inr b, g, h1))
      | Animal \<Rightarrow> (case Organism_interact self other h of (b, h1) \<Rightarrow> (Inr b, g, h1))
      | Plant \<Rightarrow> (case Plant_interact P self other h of (res, h1) \<Rightarrow> (res, g, h1))
      | Herbivore \<Rightarrow> (case Herbivore_interact P self other h of (res, h1) \<Rightarrow> (res, g, h1))
      | Carnivore \<Rightarrow> Carnivore_interact P self other g h)"

subsection \<open>Environment\<close>

record environment =
  name :: string
  weather_condition :: string
  organisms :: "ref list"
  day_count :: nat
  next_id :: nat

definition Environment_init :: "string \<Rightarrow> string \<Rightarrow> environment" where
  "Environment_init nm weather =
     \<lparr>name = nm, weather_condition = weather, organisms = [], day_count = 0, next_id = 1\<rparr>"

definition add_organism :: "ref \<Rightarrow> environment \<Rightarrow> heap \<Rightarrow> bool \<times> environment" where
  "add_organism new env h =
     (if list_ex (\<lambda>org. id' (h org) = id' (h new)) (organisms env) then (False, env)
      else (True, env\<lparr>organisms := organisms env @ [new]\<rparr>))"

definition get_organisms_by_type :: "klass \<Rightarrow> environment \<Rightarrow> heap \<Rightarrow> ref list" where
  "get_organisms_by_type organism_class env h =
     filter (\<lambda>org. isinstance (h org) organism_class) (organisms env)"

text \<open>The dictionary of \<^verbatim>\<open>get_population_count\<close>, as the triple of its values for the
  keys Plant, Herbivore, Carnivore.\<close>

definition get_population_count :: "environment \<Rightarrow> heap \<Rightarrow> nat \<times> nat \<times> nat" where
  "get_population_count env h =
     (length (filter (\<lambda>r. isinstance (h r) Plant \<and> is_alive (h r)) (organisms env)),
      length (filter (\<lambda>r. isinstance (h r) Herbivore \<and> is_alive (h r)) (organisms env)),
      length (filter (\<lambda>r. isinstance (h r) Carnivore \<and> is_alive (h r)) (organisms env)))"

text \<open>The phases of \<^verbatim>\<open>simulate_day\<close>, one function per loop. An exception leaves the
  loop with the store as it is at that moment.\<close>

definition resample_weather :: "prims \<Rightarrow> environment \<Rightarrow> rng \<Rightarrow> error + (environment \<times> rng)" where
  "resample_weather P env g =
     (let (u, g1) = random_random g
      in if py_lt u (PFloat (literal P (3 / 10))) then
           (case random_choice [''sunny'', ''cloudy'', ''rainy''] g1 of
              Inl err \<Rightarrow> Inl err
            | Inr (w, g2) \<Rightarrow> Inr (env\<lparr>weather_condition := w\<rparr>, g2))
         else Inr (env, g1))"

fun plants_photosynthesize :: "prims \<Rightarrow> string \<Rightarrow> ref list \<Rightarrow> heap \<Rightarrow> (error + unit) \<times> heap" where
  "plants_photosynthesize P w [] h = (Inr (), h)"
| "plants_photosynthesize P w (org # orgs) h =
     (if isinstance (h org) Plant \<and> is_alive (h org) then
        (case photosynthesize P w (h org) of
           Inl err \<Rightarrow> (Inl err, h)
         | Inr (gain, p1) \<Rightarrow> plants_photosynthesize P w orgs (h(org := p1)))
      else plants_photosynthesize P w orgs h)"

text \<open>Every element of \<open>carnivores\<close> is an instance of \<^verbatim>\<open>Carnivore\<close> (of \<^verbatim>\<open>Herbivore\<close> in
  the next loop), so the call resolves to that class's \<^verbatim>\<open>hunt\<close>.\<close>

fun carnivores_hunt ::
  "prims \<Rightarrow> ref list \<Rightarrow> ref list \<Rightarrow> rng \<Rightarrow> heap \<Rightarrow> (error + unit) \<times> rng \<times> heap" where
  "carnivores_hunt P [] herbivores g h = (Inr (), g, h)"
| "carnivores_hunt P (carnivore # rest) herbivores g h =
     (if is_alive (h carnivore) then
        (case Carnivore_hunt P carnivore herbivores g h of
           (Inl err, g1, h1) \<Rightarrow> (Inl err, g1, h1)
         | (Inr b, g1, h1) \<Rightarrow> carnivores_hunt P rest herbivores g1 h1)
      else carnivores_hunt P rest herbivores g h)"

fun herbivores_forage ::
  "prims \<Rightarrow> ref list \<Rightarrow> ref list \<Rightarrow> rng \<Rightarrow> heap \<Rightarrow> (error + unit) \<times> rng \<times> heap" where
  "herbivores_forage P [] plants g h = (Inr (), g, h)"
| "herbivores_forage P (herbivore # rest) plants g h =
     (if is_alive (h herbivore) then
        (case Herbivore_hunt P herbivore plants g h of
           (Inl err, g1, h1) \<Rightarrow> (Inl err, g1, h1)
         | (Inr b, g1, h1) \<Rightarrow> herbivores_forage P rest plants g1 h1)
      else herbivores_forage P rest plants g h)"

text \<open>The daily cost of an animal, \<^verbatim>\<open>2 + organism.speed * 0.1\<close>.\<close>

definition daily_cost :: "prims \<Rightarrow> organism \<Rightarrow> error + num" where
  "daily_cost P org =
     (case py_mul P (speed org) (PFloat (literal P (1 / 10))) of
        Inl err \<Rightarrow> Inl err
      | Inr tenth \<Rightarrow> py_add P (PInt 2) tenth)"

fun daily_consumption :: "prims \<Rightarrow> ref list \<Rightarrow> heap \<Rightarrow> (error + unit) \<times> heap" where
  "daily_consumption P [] h = (Inr (), h)"
| "daily_consumption P (org # orgs) h =
     (if is_alive (h org) then
        (if isinstance (h org) Plant then
           (case consume_energy P (PInt 1) (h org) of
              Inl err \<Rightarrow> (Inl err, h)
            | Inr (alive, org1) \<Rightarrow> daily_consumption P orgs (h(org := org1)))
         else if isinstance (h org) Animal then
           (case daily_cost P (h org) of
              Inl err \<Rightarrow> (Inl err, h)
            | Inr amount \<Rightarrow>
                (case consume_energy P amount (h org) of
                   Inl err \<Rightarrow> (Inl err, h)
                 | Inr (alive, org1) \<Rightarrow> daily_consumption P orgs (h(org := org1))))
         else daily_consumption P orgs h)
      else daily_consumption P orgs h)"

text \<open>\<^verbatim>\<open>Environment.simulate_day\<close>: the result, the environment, the generator and the
  store as the call leaves them, also when it raises.\<close>

definition simulate_day ::
  "prims \<Rightarrow> environment \<Rightarrow> rng \<Rightarrow> heap \<Rightarrow> (error + nat) \<times> environment \<times> rng \<times> heap" where
  "simulate_day P env g h =
     (let env1 = env\<lparr>day_count := day_count env + 1\<rparr>
      in case resample_weather P env1 g of
           Inl err \<Rightarrow> (Inl err, env1, g, h)
         | Inr (env2, g1) \<Rightarrow>
             (case plants_photosynthesize P (weather_condition env2) (organisms env2) h of
                (Inl err, h1) \<Rightarrow> (Inl err, env2, g1, h1)
              | (Inr u, h1) \<Rightarrow>
                  let carnivores = get_organisms_by_type Carnivore env2 h1;
                      herbivores = get_organisms_by_type Herbivore env2 h1
                  in case carnivores_hunt P carnivores herbivores g1 h1 of
                       (Inl err, g2, h2) \<Rightarrow> (Inl err, env2, g2, h2)
                     | (Inr u, g2, h2) \<Rightarrow>
                         let living = filter (\<lambda>hb. is_alive (h2 hb)) herbivores;
                             plants = get_organisms_by_type Plant env2 h2
                         in case herbivores_forage P living plants g2 h2 of
                              (Inl err, g3, h3) \<Rightarrow> (Inl err, env2, g3, h3)
                            | (Inr u, g3, h3) \<Rightarrow>
                                (case daily_consumption P (organisms env2) h3 of
                                   (Inl err, h4) \<Rightarrow> (Inl err, env2, g3, h4)
                                 | (Inr u, h4) \<Rightarrow> (Inr (day_count env2), env2, g3, h4))))"


subsection \<open>Sequences of public operations\<close>

text \<open>
  One call of the public interface on the objects of the store. \<open>SimulateDay\<close> carries
  the environment it is called on, in whatever state that environment is. The store
  after the call is kept also when the call raised.
\<close>

datatype operation =
  AssignEnergy ref num
  | ConsumeEnergy ref num
  | Photosynthesize ref string
  | Hunt ref "ref list"
  | Interact ref ref
  | SimulateDay environment

fun perform :: "prims \<Rightarrow> operation \<Rightarrow> rng \<times> heap \<Rightarrow> rng \<times> heap" where
  "perform P (AssignEnergy r v) (g, h) = (g, h(r := energy_setter v (h r)))"
| "perform P (ConsumeEnergy r amount) (g, h) =
     (case consume_energy P amount (h r) of
        Inl err \<Rightarrow> (g, h)
      | Inr (alive, org1) \<Rightarrow> (g, h(r := org1)))"
| "perform P (Photosynthesize r w) (g, h) =
     (if isinstance (h r) Plant then
        (case photosynthesize P w (h r) of
           Inl err \<Rightarrow> (g, h)
         | Inr (gain, p1) \<Rightarrow> (g, h(r := p1)))
      else (g, h))"
| "perform P (Hunt r prey) (g, h) = snd (hunt P r prey g h)"
| "perform P (Interact r other) (g, h) = snd (interact P r other g h)"
| "perform P (SimulateDay env) (g, h) = snd (snd (simulate_day P env g h))"

definition perform_all :: "prims \<Rightarrow> operation list \<Rightarrow> rng \<times> heap \<Rightarrow> rng \<times> heap" where
  "perform_all P ops s = fold (perform P) ops s"

subsection \<open>What mutation can do to the store\<close>

text \<open>
  The relation between the store before and after any amount of mutation: the class
  and the identifier of every object stay, no dead object comes back to life, and an
  energy that was non-negative stays non-negative.
\<close>

definition mutated :: "heap \<Rightarrow> heap \<Rightarrow> bool" where
  "mutated h h' =
     (\<forall>r. cls (h' r) = cls (h r) \<and> id' (h' r) = id' (h r)
          \<and> (is_alive (h' r) \<longrightarrow> is_alive (h r))
          \<and> (py_le (PInt 0) (energy (h r)) \<longrightarrow> py_le (PInt 0) (energy (h' r))))"

subsection \<open>Example objects\<close>

text \<open>
  An instance of the parameters for running examples: float operations without rounding,
  the conversion and the true division of integers failing where the result would round
  to an infinity (from \<open>overflow_limit\<close> on, the midpoint between the largest float and
  \<open>2 ^ 1024\<close>), and lower-casing of the ASCII letters. On the integers, the binary
  fractions and the ASCII names of the examples below it gives the values and the
  exceptions of the interpreter.
\<close>

definition overflow_limit :: real where
  "overflow_limit = 2 ^ 1024 - 2 ^ 970"

definition in_range :: "real \<Rightarrow> bool" where
  "in_range x = (\<bar>x\<bar> < overflow_limit)"

definition huge :: int where
  "huge = 10 ^ 400"

definition exactly :: "(real \<Rightarrow> real \<Rightarrow> real) \<Rightarrow> fl \<Rightarrow> fl \<Rightarrow> fl" where
  "exactly op x y = (case (x, y) of (Fin a, Fin b) \<Rightarrow> Fin (op a b) | _ \<Rightarrow> NaN)"

definition ascii_lower :: "char \<Rightarrow> char" where
  "ascii_lower c =
     (case map_of (zip ''ABCDEFGHIJKLMNOPQRSTUVWXYZ'' ''abcdefghijklmnopqrstuvwxyz'') c of
        Some d \<Rightarrow> d
      | None \<Rightarrow> c)"

definition exact :: prims where
  "exact = \<lparr>fadd = exactly (\<lambda>a b. a + b), fsub = exactly (\<lambda>a b. a - b),
            fmul = exactly (\<lambda>a b. a * b), fdiv = exactly (\<lambda>a b. a / b),
            big_int_to_float =
              (\<lambda>a. if in_range (of_int a) then Some (Fin (of_int a)) else None),
            int_truediv =
              (\<lambda>a b. if in_range (of_int a / of_int b)
                     then Some (Fin (of_int a / of_int b)) else None),
            literal = Fin, str_lower = map ascii_lower\<rparr>"

text \<open>
  Objects as the constructors store them:
  \<^verbatim>\<open>Plant("P001", "Oak Tree", 100, True, 0.25)\<close>, \<^verbatim>\<open>Plant("P003", "Grass", 50, True, 0.5)\<close>,
  \<^verbatim>\<open>Herbivore("H001", "Rabbit", 70, True, 3, "herbivore", "grass")\<close>,
  \<^verbatim>\<open>Carnivore("C001", "Wolf", 80, True, 5, "carnivore", 0.75)\<close>,
  \<^verbatim>\<open>Herbivore("DH", "Dead Herbivore", 0, False, 3, "herbivore", "grass")\<close>, a herbivore
  of speed \<open>-1\<close>, a living herbivore of energy \<open>-50\<close>, an instance of the base class
  \<^verbatim>\<open>Animal\<close>, a second plant with the identifier P001, a herbivore and a carnivore of
  speed \<open>huge\<close>, which is \<^verbatim>\<open>10 ** 400\<close>, a herbivore of that energy and a plant of
  energy 12.5.
\<close>

definition blank :: organism where
  "blank = \<lparr>cls = Organism, id' = [], species_name = [], energy = PInt 0, is_alive = False,
            growth_rate = PInt 0, speed = PInt 0, diet_type = [], food_eaten = 0,
            plant_preference = [], hunting_efficiency = PInt 0\<rparr>"

definition oak :: organism where
  "oak = blank\<lparr>cls := Plant, id' := ''P001'', species_name := ''Oak Tree'',
              energy := PInt 100, is_alive := True, growth_rate := PFloat (Fin (1 / 4))\<rparr>"

definition grass :: organism where
  "grass = blank\<lparr>cls := Plant, id' := ''P003'', species_name := ''Grass'', energy := PInt 50,
                is_alive := True, growth_rate := PFloat (Fin (1 / 2))\<rparr>"

definition rabbit :: organism where
  "rabbit = blank\<lparr>cls := Herbivore, id' := ''H001'', species_name := ''Rabbit'',
                 energy := PInt 70, is_alive := True, speed := PInt 3,
                 diet_type := ''herbivore'', plant_preference := ''grass''\<rparr>"

definition wolf :: organism where
  "wolf = blank\<lparr>cls := Carnivore, id' := ''C001'', species_name := ''Wolf'',
               energy := PInt 80, is_alive := True, speed := PInt 5,
               diet_type := ''carnivore'', hunting_efficiency := PFloat (Fin (3 / 4))\<rparr>"

definition dead_herbivore :: organism where
  "dead_herbivore = blank\<lparr>cls := Herbivore, id' := ''DH'', species_name := ''Dead Herbivore'',
                 energy := PInt 0, is_alive := False, speed := PInt 3,
                 diet_type := ''herbivore'', plant_preference := ''grass''\<rparr>"

definition backward_hare :: organism where
  "backward_hare = blank\<lparr>cls := Herbivore, id' := ''H002'', species_name := ''Hare'',
                 energy := PInt 70, is_alive := True, speed := PInt (- 1),
                 diet_type := ''herbivore'', plant_preference := ''grass''\<rparr>"

definition indebted_deer :: organism where
  "indebted_deer = blank\<lparr>cls := Herbivore, id' := ''H003'', species_name := ''Deer'',
                 energy := PInt (- 50), is_alive := True, speed := PInt 4,
                 diet_type := ''herbivore'', plant_preference := ''oak''\<rparr>"

definition generic_animal :: organism where
  "generic_animal = blank\<lparr>cls := Animal, id' := ''A001'', species_name := ''Generic'',
                 energy := PInt 50, is_alive := True, speed := PInt 3,
                 diet_type := ''omnivore''\<rparr>"

definition namesake :: organism where
  "namesake = blank\<lparr>cls := Plant, id' := ''P001'', species_name := ''Pine Tree'',
                 energy := PInt 90, is_alive := True, growth_rate := PFloat (Fin (1 / 8))\<rparr>"

definition giant_hare :: organism where
  "giant_hare = blank\<lparr>cls := Herbivore, id' := ''H004'', species_name := ''Hare'',
                 energy := PInt 70, is_alive := True, speed := PInt huge,
                 diet_type := ''herbivore'', plant_preference := ''grass''\<rparr>"

definition giant_wolf :: organism where
  "giant_wolf = blank\<lparr>cls := Carnivore, id' := ''C002'', species_name := ''Wolf'',
                 energy := PInt 80, is_alive := True, speed := PInt huge,
                 diet_type := ''carnivore'', hunting_efficiency := PFloat (Fin (3 / 4))\<rparr>"

definition giant_deer :: organism where
  "giant_deer = blank\<lparr>cls := Herbivore, id' := ''H005'', species_name := ''Deer'',
                 energy := PInt huge, is_alive := True, speed := PInt 4,
                 diet_type := ''herbivore'', plant_preference := ''oak''\<rparr>"

definition sprout :: organism where
  "sprout = blank\<lparr>cls := Plant, id' := ''P005'', species_name := ''Sprout'',
                 energy := PFloat (Fin (25 / 2)), is_alive := True,
                 growth_rate := PFloat (Fin (1 / 4))\<rparr>"

text \<open>A store holding them at the addresses 0 to 12 (every other address holds
  \<open>blank\<close>), a generator whose every float is 0.5 and whose every index is the first,
  and three environments on that store.\<close>

definition forest :: heap where
  "forest = (\<lambda>r. blank)(0 := oak, 1 := rabbit, 2 := wolf, 3 := grass, 4 := dead_herbivore,
               5 := backward_hare, 6 := indebted_deer, 7 := generic_animal, 8 := namesake,
               9 := giant_hare, 10 := giant_wolf, 11 := giant_deer, 12 := sprout)"

definition steady :: rng where
  "steady = \<lparr>floats = (\<lambda>n. 1 / 2), ints = (\<lambda>n. 0)\<rparr>"

definition forest_env :: environment where
  "forest_env = \<lparr>name = ''Forest Ecosystem'', weather_condition = ''sunny'',
                 organisms = [0, 3, 1, 2], day_count = 0, next_id = 1\<rparr>"

definition steppe_env :: environment where
  "steppe_env = \<lparr>name = ''Steppe'', weather_condition = ''sunny'',
                 organisms = [2, 5], day_count = 0, next_id = 1\<rparr>"

definition tundra_env :: environment where
  "tundra_env = \<lparr>name = ''Tundra'', weather_condition = ''sunny'',
                 organisms = [9], day_count = 0, next_id = 1\<rparr>"

section \<open>Properties\<close>

subsection \<open>Comparisons and the operations that cannot raise\<close>

lemma fl_lt_le: "fl_lt x y \<Longrightarrow> fl_le x y"
  by (cases x; cases y) simp_all

lemma fl_le_not_lt: "fl_le x y \<Longrightarrow> \<not> fl_lt y x"
  by (cases x; cases y) simp_all

lemma py_le_zero_max: "py_le (PInt 0) (py_max (PInt 0) v)"
  by (simp add: py_max_def py_le_def py_lt_def fl_lt_le)

lemma py_max_nonpositive: "py_le v (PInt 0) \<Longrightarrow> py_max (PInt 0) v = PInt 0"
  by (simp add: py_max_def py_le_def py_lt_def fl_le_not_lt)

lemma to_float_error: "to_float P x = Inl err \<Longrightarrow> err = OverflowError"
  by (cases x) (auto split: if_splits option.splits)

lemma arith_error: "arith iop fop P x y = Inl err \<Longrightarrow> err = OverflowError"
  by (cases x; cases y) (auto simp del: to_float.simps dest: to_float_error split: sum.splits)

lemma py_add_error: "py_add P x y = Inl err \<Longrightarrow> err = OverflowError"
  by (simp add: py_add_def arith_error)

lemma py_sub_error: "py_sub P x y = Inl err \<Longrightarrow> err = OverflowError"
  by (simp add: py_sub_def arith_error)

lemma py_mul_error: "py_mul P x y = Inl err \<Longrightarrow> err = OverflowError"
  by (simp add: py_mul_def arith_error)

lemma py_truediv_error:
  "py_truediv P x y = Inl err \<Longrightarrow> err = ZeroDivisionError \<or> err = OverflowError"
  by (cases x; cases y)
     (auto simp del: to_float.simps dest: to_float_error split: sum.splits if_splits option.splits)

lemma py_sub_small: "\<bar>b\<bar> \<le> 2 ^ 53 \<Longrightarrow> \<exists>v. py_sub P x (PInt b) = Inr v"
  by (cases x) (simp_all add: py_sub_def)

lemma py_sub_self: "\<exists>v. py_sub P x x = Inr v"
  by (cases x) (simp_all add: py_sub_def)

lemma py_sub_min: "\<exists>v. py_sub P e (py_min e (PInt 25)) = Inr v"
  using py_sub_small [of 25 P e] py_sub_self [of P e] by (simp add: py_min_def)

lemma py_int_arith:
  "py_add P (PInt a) (PInt b) = Inr (PInt (a + b))"
  "py_sub P (PInt a) (PInt b) = Inr (PInt (a - b))"
  "py_mul P (PInt a) (PInt b) = Inr (PInt (a * b))"
  by (simp_all add: py_add_def py_sub_def py_mul_def)

lemma py_int_compare:
  "py_lt (PInt a) (PInt b) = (a < b)" "py_le (PInt a) (PInt b) = (a \<le> b)"
  "py_max (PInt a) (PInt b) = PInt (max a b)" "py_min (PInt a) (PInt b) = PInt (min a b)"
  by (auto simp add: py_lt_def py_le_def py_max_def py_min_def)

subsection \<open>Mutation never revives, relabels or drives energy below zero\<close>

lemma mutated_refl: "mutated h h"
  by (simp add: mutated_def)

lemma mutated_trans: "mutated h1 h2 \<Longrightarrow> mutated h2 h3 \<Longrightarrow> mutated h1 h3"
  by (simp add: mutated_def)

lemma energy_setter_fields:
  "cls (energy_setter v org) = cls org"
  "speed (energy_setter v org) = speed org"
  "hunting_efficiency (energy_setter v org) = hunting_efficiency org"
  "id' (energy_setter v org) = id' org"
  "food_eaten (energy_setter v org) = food_eaten org"
  "energy (energy_setter v org) = py_max (PInt 0) v"
  "is_alive (energy_setter v org) = (is_alive org \<and> \<not> py_le (py_max (PInt 0) v) (PInt 0))"
  by (auto simp add: energy_setter_def Let_def)

lemma mutated_energy_setter:
  "mutated h h1 \<Longrightarrow> mutated h (h1(r := energy_setter v (h1 r)))"
  by (simp add: mutated_def energy_setter_fields py_le_zero_max)

lemma mutated_food_eaten:
  "mutated h h1 \<Longrightarrow> mutated h (h1(r := (h1 r)\<lparr>food_eaten := n\<rparr>))"
  by (simp add: mutated_def)

lemma consume_energy_Inr:
  "consume_energy P a org = Inr (alive, org1) \<Longrightarrow> \<exists>v. org1 = energy_setter v org"
  by (auto simp add: consume_energy_def Let_def split: sum.splits)

lemma consume_energy_error: "consume_energy P a org = Inl err \<Longrightarrow> err = OverflowError"
  by (auto simp add: consume_energy_def Let_def dest: py_sub_error split: sum.splits)

lemma photosynthesize_Inr:
  "photosynthesize P w p = Inr (gain, p1) \<Longrightarrow> \<exists>v. p1 = energy_setter v p"
  by (auto simp add: photosynthesize_def Let_def split: sum.splits)


lemma mutated_consume_energy:
  "consume_energy P a (h1 r) = Inr (alive, org1) \<Longrightarrow> mutated h h1 \<Longrightarrow> mutated h (h1(r := org1))"
  using consume_energy_Inr [of P a "h1 r" alive org1] mutated_energy_setter [of h h1 r]
  by auto

lemma mutated_photosynthesize:
  "photosynthesize P w (h1 r) = Inr (gain, p1) \<Longrightarrow> mutated h h1 \<Longrightarrow> mutated h (h1(r := p1))"
  using photosynthesize_Inr [of P w "h1 r" gain p1] mutated_energy_setter [of h h1 r]
  by auto

lemma mutated_Plant_interact: "mutated h (snd (Plant_interact P self other h))"
  by (simp add: Plant_interact_def Let_def mutated_def energy_setter_fields py_le_zero_max
      split: sum.splits)

lemma mutated_Herbivore_interact: "mutated h (snd (Herbivore_interact P self other h))"
  by (simp add: Herbivore_interact_def Let_def mutated_def energy_setter_fields py_le_zero_max
      split: sum.splits)

lemma mutated_Carnivore_interact:
  "mutated h (snd (snd (Carnivore_interact P self other g h)))"
  by (simp add: Carnivore_interact_def Let_def mutated_def energy_setter_fields py_le_zero_max
      split: prod.splits sum.splits)

lemma mutated_Herbivore_hunt: "mutated h (snd (snd (Herbivore_hunt P self prey g h)))"
  by (simp add: Herbivore_hunt_def Let_def mutated_def energy_setter_fields py_le_zero_max
      split: prod.splits sum.splits)

lemma mutated_Carnivore_hunt: "mutated h (snd (snd (Carnivore_hunt P self prey g h)))"
  by (simp add: Carnivore_hunt_def Let_def mutated_def energy_setter_fields py_le_zero_max
      consume_energy_def split: prod.splits sum.splits)

lemma mutated_plants_photosynthesize:
  "mutated h h1 \<Longrightarrow> mutated h (snd (plants_photosynthesize P w orgs h1))"
proof (induction orgs arbitrary: h1)
  case Nil
  then show ?case by simp
next
  case (Cons org orgs)
  show ?case
  proof (cases "isinstance (h1 org) Plant \<and> is_alive (h1 org)")
    case False
    with Cons show ?thesis by auto
  next
    case True
    show ?thesis
    proof (cases "photosynthesize P w (h1 org)")
      case (Inl err)
      with True Cons.prems show ?thesis by simp
    next
      case (Inr res)
      obtain gain p1 where res: "res = (gain, p1)"
        by (cases res) auto
      from mutated_photosynthesize [of P w h1 org gain p1 h] Inr res Cons.prems
      have step: "mutated h (h1(org := p1))" by simp
      have eq: "plants_photosynthesize P w (org # orgs) h1
          = plants_photosynthesize P w orgs (h1(org := p1))"
        using True Inr res by simp
      show ?thesis
        unfolding eq using step by (rule Cons.IH)
    qed
  qed
qed

lemma mutated_daily_consumption:
  "mutated h h1 \<Longrightarrow> mutated h (snd (daily_consumption P orgs h1))"
proof (induction orgs arbitrary: h1)
  case Nil
  then show ?case by simp
next
  case (Cons org orgs)
  have step: "consume_energy P a (h1 org) = Inr (alive, org1)
      \<Longrightarrow> mutated h (snd (daily_consumption P orgs (h1(org := org1))))" for a alive org1
    using mutated_consume_energy [of P a h1 org alive org1 h] Cons.prems Cons.IH by blast
  from Cons show ?case
    by (auto simp add: step split: sum.splits)
qed

lemma mutated_carnivores_hunt:
  "mutated h h1 \<Longrightarrow> mutated h (snd (snd (carnivores_hunt P cs hs g h1)))"
proof (induction cs arbitrary: g h1)
  case Nil
  then show ?case by simp
next
  case (Cons c cs)
  obtain res g2 h2 where hunt: "Carnivore_hunt P c hs g h1 = (res, g2, h2)"
    using prod_cases3 by blast
  have "mutated h1 h2"
    using mutated_Carnivore_hunt [of h1 P c hs g] hunt by simp
  with Cons.prems have "mutated h h2"
    by (rule mutated_trans)
  with Cons show ?case
    by (cases res) (simp_all add: hunt)
qed

lemma mutated_herbivores_forage:
  "mutated h h1 \<Longrightarrow> mutated h (snd (snd (herbivores_forage P hs ps g h1)))"
proof (induction hs arbitrary: g h1)
  case Nil
  then show ?case by simp
next
  case (Cons c cs)
  obtain res g2 h2 where hunt: "Herbivore_hunt P c ps g h1 = (res, g2, h2)"
    using prod_cases3 by blast
  have "mutated h1 h2"
    using mutated_Herbivore_hunt [of h1 P c ps g] hunt by simp
  with Cons.prems have "mutated h h2"
    by (rule mutated_trans)
  with Cons show ?case
    by (cases res) (simp_all add: hunt)
qed

subsection \<open>The ways a day can end\<close>

lemma resample_weather_Inr:
  "\<exists>env2 g1. resample_weather P env g = Inr (env2, g1)
      \<and> day_count env2 = day_count env \<and> organisms env2 = organisms env"
  by (simp add: resample_weather_def random_random_def random_choice_def Let_def)

lemma simulate_day_cases:
  obtains
    (photosynthesis_raises) env2 g1 err h1 where
      "resample_weather P (env\<lparr>day_count := day_count env + 1\<rparr>) g = Inr (env2, g1)"
      "plants_photosynthesize P (weather_condition env2) (organisms env2) h = (Inl err, h1)"
      "simulate_day P env g h = (Inl err, env2, g1, h1)"
  | (hunt_raises) env2 g1 h1 err g2 h2 where
      "resample_weather P (env\<lparr>day_count := day_count env + 1\<rparr>) g = Inr (env2, g1)"
      "plants_photosynthesize P (weather_condition env2) (organisms env2) h = (Inr (), h1)"
      "carnivores_hunt P (get_organisms_by_type Carnivore env2 h1)
         (get_organisms_by_type Herbivore env2 h1) g1 h1 = (Inl err, g2, h2)"
      "simulate_day P env g h = (Inl err, env2, g2, h2)"
  | (forage_raises) env2 g1 h1 g2 h2 err g3 h3 where
      "resample_weather P (env\<lparr>day_count := day_count env + 1\<rparr>) g = Inr (env2, g1)"
      "plants_photosynthesize P (weather_condition env2) (organisms env2) h = (Inr (), h1)"
      "carnivores_hunt P (get_organisms_by_type Carnivore env2 h1)
         (get_organisms_by_type Herbivore env2 h1) g1 h1 = (Inr (), g2, h2)"
      "herbivores_forage P
         (filter (\<lambda>hb. is_alive (h2 hb)) (get_organisms_by_type Herbivore env2 h1))
         (get_organisms_by_type Plant env2 h2) g2 h2 = (Inl err, g3, h3)"
      "simulate_day P env g h = (Inl err, env2, g3, h3)"
  | (consumption_raises) env2 g1 h1 g2 h2 g3 h3 err h4 where
      "resample_weather P (env\<lparr>day_count := day_count env + 1\<rparr>) g = Inr (env2, g1)"
      "plants_photosynthesize P (weather_condition env2) (organisms env2) h = (Inr (), h1)"
      "carnivores_hunt P (get_organisms_by_type Carnivore env2 h1)
         (get_organisms_by_type Herbivore env2 h1) g1 h1 = (Inr (), g2, h2)"
      "herbivores_forage P
         (filter (\<lambda>hb. is_alive (h2 hb)) (get_organisms_by_type Herbivore env2 h1))
         (get_organisms_by_type Plant env2 h2) g2 h2 = (Inr (), g3, h3)"
      "daily_consumption P (organisms env2) h3 = (Inl err, h4)"
      "simulate_day P env g h = (Inl err, env2, g3, h4)"
  | (returns) env2 g1 h1 g2 h2 g3 h3 h4 where
      "resample_weather P (env\<lparr>day_count := day_count env + 1\<rparr>) g = Inr (env2, g1)"
      "plants_photosynthesize P (weather_condition env2) (organisms env2) h = (Inr (), h1)"
      "carnivores_hunt P (get_organisms_by_type Carnivore env2 h1)
         (get_organisms_by_type Herbivore env2 h1) g1 h1 = (Inr (), g2, h2)"
      "herbivores_forage P
         (filter (\<lambda>hb. is_alive (h2 hb)) (get_organisms_by_type Herbivore env2 h1))
         (get_organisms_by_type Plant env2 h2) g2 h2 = (Inr (), g3, h3)"
      "daily_consumption P (organisms env2) h3 = (Inr (), h4)"
      "simulate_day P env g h = (Inr (day_count env2), env2, g3, h4)"
proof -
  obtain env2 g1 where rw:
    "resample_weather P (env\<lparr>day_count := day_count env + 1\<rparr>) g = Inr (env2, g1)"
    using resample_weather_Inr by blast
  obtain r1 h1 where ph:
    "plants_photosynthesize P (weather_condition env2) (organisms env2) h = (r1, h1)"
    by (cases "plants_photosynthesize P (weather_condition env2) (organisms env2) h") auto
  show thesis
  proof (cases r1)
    case (Inl err)
    have "simulate_day P env g h = (Inl err, env2, g1, h1)"
      using rw ph Inl by (simp add: simulate_day_def Let_def)
    with rw ph Inl show thesis
      using photosynthesis_raises by simp
  next
    case photo: (Inr u1)
    obtain r2 g2 h2 where ch:
      "carnivores_hunt P (get_organisms_by_type Carnivore env2 h1)
         (get_organisms_by_type Herbivore env2 h1) g1 h1 = (r2, g2, h2)"
      using prod_cases3 by blast
    show thesis
    proof (cases r2)
      case (Inl err)
      have "simulate_day P env g h = (Inl err, env2, g2, h2)"
        using rw ph photo ch Inl by (simp add: simulate_day_def Let_def)
      with rw ph photo ch Inl show thesis
        using hunt_raises by simp
    next
      case hunted: (Inr u2)
      obtain r3 g3 h3 where hf:
        "herbivores_forage P
           (filter (\<lambda>hb. is_alive (h2 hb)) (get_organisms_by_type Herbivore env2 h1))
           (get_organisms_by_type Plant env2 h2) g2 h2 = (r3, g3, h3)"
        using prod_cases3 by blast
      show thesis
      proof (cases r3)
        case (Inl err)
        have "simulate_day P env g h = (Inl err, env2, g3, h3)"
          using rw ph photo ch hunted hf Inl by (simp add: simulate_day_def Let_def)
        with rw ph photo ch hunted hf Inl show thesis
          using forage_raises by simp
      next
        case foraged: (Inr u3)
        obtain r4 h4 where dc: "daily_consumption P (organisms env2) h3 = (r4, h4)"
          by (cases "daily_consumption P (organisms env2) h3") auto
        show thesis
        proof (cases r4)
          case (Inl err)
          have "simulate_day P env g h = (Inl err, env2, g3, h4)"
            using rw ph photo ch hunted hf foraged dc Inl
            by (simp add: simulate_day_def Let_def)
          with rw ph photo ch hunted hf foraged dc Inl show thesis
            using consumption_raises by simp
        next
          case (Inr u4)
          have "simulate_day P env g h = (Inr (day_count env2), env2, g3, h4)"
            using rw ph photo ch hunted hf foraged dc Inr
            by (simp add: simulate_day_def Let_def)
          with rw ph photo ch hunted hf foraged dc Inr show thesis
            using returns by simp
        qed
      qed
    qed
  qed
qed

lemma mutated_simulate_day: "mutated h (snd (snd (snd (simulate_day P env g h))))"
proof (cases P env g h rule: simulate_day_cases)
  case (photosynthesis_raises env2 g1 err h1)
  then show ?thesis
    using mutated_plants_photosynthesize [OF mutated_refl, of h P "weather_condition env2" "organisms env2"]
    by simp
next
  case (hunt_raises env2 g1 h1 err g2 h2)
  have "mutated h h1"
    using mutated_plants_photosynthesize [OF mutated_refl, of h P "weather_condition env2" "organisms env2"]
      hunt_raises(2) by simp
  from mutated_carnivores_hunt [OF this] show ?thesis
    using hunt_raises(3,4) by (metis snd_conv)
next
  case (forage_raises env2 g1 h1 g2 h2 err g3 h3)
  have "mutated h h1"
    using mutated_plants_photosynthesize [OF mutated_refl, of h P "weather_condition env2" "organisms env2"]
      forage_raises(2) by simp
  from mutated_carnivores_hunt [OF this] have "mutated h h2"
    using forage_raises(3) by (metis snd_conv)
  from mutated_herbivores_forage [OF this] show ?thesis
    using forage_raises(4,5) by (metis snd_conv)
next
  case (consumption_raises env2 g1 h1 g2 h2 g3 h3 err h4)
  have "mutated h h1"
    using mutated_plants_photosynthesize [OF mutated_refl, of h P "weather_condition env2" "organisms env2"]
      consumption_raises(2) by simp
  from mutated_carnivores_hunt [OF this] have "mutated h h2"
    using consumption_raises(3) by (metis snd_conv)
  from mutated_herbivores_forage [OF this] have "mutated h h3"
    using consumption_raises(4) by (metis snd_conv)
  from mutated_daily_consumption [OF this] show ?thesis
    using consumption_raises(5,6) by (metis snd_conv)
next
  case (returns env2 g1 h1 g2 h2 g3 h3 h4)
  have "mutated h h1"
    using mutated_plants_photosynthesize [OF mutated_refl, of h P "weather_condition env2" "organisms env2"]
      returns(2) by simp
  from mutated_carnivores_hunt [OF this] have "mutated h h2"
    using returns(3) by (metis snd_conv)
  from mutated_herbivores_forage [OF this] have "mutated h h3"
    using returns(4) by (metis snd_conv)
  from mutated_daily_consumption [OF this] show ?thesis
    using returns(5,6) by (metis snd_conv)
qed

lemma mutated_hunt: "mutated h (snd (snd (hunt P self prey g h)))"
  using mutated_Herbivore_hunt [of h P self prey g] mutated_Carnivore_hunt [of h P self prey g]
  by (cases "cls (h self)")
     (auto simp add: hunt_def Animal_hunt_def mutated_refl split: prod.splits sum.splits)

lemma mutated_interact: "mutated h (snd (snd (interact P self other g h)))"
  using mutated_Plant_interact [of h P self other] mutated_Herbivore_interact [of h P self other]
    mutated_Carnivore_interact [of h P self other g]
  by (cases "cls (h self)")
     (auto simp add: interact_def Organism_interact_def mutated_refl split: prod.splits)

lemma mutated_perform: "mutated h (snd (perform P op1 (g, h)))"
proof (cases op1)
  case (ConsumeEnergy r amount)
  then show ?thesis
    using mutated_consume_energy [of P amount h r _ _ h]
    by (auto simp add: mutated_refl split: sum.splits)
next
  case (Photosynthesize r w)
  then show ?thesis
    using mutated_photosynthesize [of P w h r _ _ h]
    by (auto simp add: mutated_refl split: sum.splits)
qed (simp_all add: mutated_refl mutated_energy_setter mutated_hunt mutated_interact
      mutated_simulate_day)

lemma mutated_perform_all: "mutated h (snd (perform_all P ops (g, h)))"
proof (induction ops arbitrary: g h)
  case Nil
  then show ?case by (simp add: perform_all_def mutated_refl)
next
  case (Cons op1 ops)
  obtain g1 h1 where step: "perform P op1 (g, h) = (g1, h1)"
    by (cases "perform P op1 (g, h)") auto
  have "mutated h h1"
    using mutated_perform [of h P op1 g] step by simp
  moreover have "mutated h1 (snd (perform_all P ops (g1, h1)))"
    by (rule Cons.IH)
  ultimately show ?case
    using step by (simp add: perform_all_def mutated_trans)
qed

subsection \<open>Which exceptions can leave a call\<close>


lemma success_chance_error:
  "success_chance P hunter target = Inl err \<Longrightarrow> err = ZeroDivisionError \<or> err = OverflowError"
  by (auto simp add: success_chance_def dest: py_add_error py_mul_error py_truediv_error
      split: sum.splits)

lemma hunt_gain_error: "hunt_gain P target = Inl err \<Longrightarrow> err = OverflowError"
  by (auto simp add: hunt_gain_def dest: py_mul_error split: sum.splits)

lemma Carnivore_hunt_error:
  "fst (Carnivore_hunt P self prey g h) = Inl err
     \<Longrightarrow> err = ZeroDivisionError \<or> err = OverflowError"
  by (auto simp add: Carnivore_hunt_def Let_def random_choice_def
      dest: success_chance_error hunt_gain_error py_add_error consume_energy_error
      split: if_splits sum.splits prod.splits)






subsection \<open>The day counter\<close>






subsection \<open>Running the examples\<close>

lemmas example_defs =
  blank_def oak_def grass_def rabbit_def wolf_def dead_herbivore_def backward_hare_def
  indebted_deer_def generic_animal_def namesake_def giant_hare_def giant_wolf_def
  giant_deer_def sprout_def forest_def steady_def forest_env_def steppe_env_def
  tundra_env_def

lemma huge_not_small: "\<not> \<bar>huge\<bar> \<le> 9007199254740992"
  by (simp add: huge_def)

lemma huge_overflows: "\<not> in_range (real_of_int huge)"
  by (simp add: huge_def in_range_def overflow_limit_def)

lemma huge_quotient_overflows: "\<not> in_range (real_of_int huge / 4)"
  by (simp add: huge_def in_range_def overflow_limit_def)

lemma small_below_limit: "\<bar>x\<bar> \<le> 2 ^ 53 \<Longrightarrow> in_range x"
  by (simp add: in_range_def overflow_limit_def)

lemmas eval_defs = example_defs exact_def exactly_def isinstance_def Let_def
  random_choice_def random_random_def energy_setter_def consume_energy_def
  py_add_def py_sub_def py_mul_def py_lt_def py_le_def py_max_def py_min_def
  huge_not_small huge_overflows huge_quotient_overflows small_below_limit

lemma examples_constructed:
  "Plant_init (PyStr ''P001'') ''Oak Tree'' (PInt 100) True (PFloat (Fin (1 / 4))) n
     = Inr (oak, n + 1)"
  "Plant_init (PyStr ''P003'') ''Grass'' (PInt 50) True (PFloat (Fin (1 / 2))) n
     = Inr (grass, n + 1)"
  "Herbivore_init (PyStr ''H001'') ''Rabbit'' (PInt 70) True (PInt 3) ''herbivore'' ''grass'' n
     = Inr (rabbit, n + 1)"
  "Carnivore_init (PyStr ''C001'') ''Wolf'' (PInt 80) True (PInt 5) ''carnivore''
     (PFloat (Fin (3 / 4))) n = Inr (wolf, n + 1)"
  "Herbivore_init (PyStr ''DH'') ''Dead Herbivore'' (PInt 0) False (PInt 3) ''herbivore''
     ''grass'' n = Inr (dead_herbivore, n + 1)"
  "Herbivore_init (PyStr ''H002'') ''Hare'' (PInt 70) True (PInt (- 1)) ''herbivore'' ''grass'' n
     = Inr (backward_hare, n + 1)"
  "Herbivore_init (PyStr ''H003'') ''Deer'' (PInt (- 50)) True (PInt 4) ''herbivore'' ''oak'' n
     = Inr (indebted_deer, n + 1)"
  "Animal_init (PyStr ''A001'') ''Generic'' (PInt 50) True (PInt 3) ''omnivore'' n
     = Inr (generic_animal, n + 1)"
  "Plant_init (PyStr ''P001'') ''Pine Tree'' (PInt 90) True (PFloat (Fin (1 / 8))) n
     = Inr (namesake, n + 1)"
  "Herbivore_init (PyStr ''H004'') ''Hare'' (PInt 70) True (PInt huge) ''herbivore''
     ''grass'' n = Inr (giant_hare, n + 1)"
  "Carnivore_init (PyStr ''C002'') ''Wolf'' (PInt 80) True (PInt huge) ''carnivore''
     (PFloat (Fin (3 / 4))) n = Inr (giant_wolf, n + 1)"
  "Herbivore_init (PyStr ''H005'') ''Deer'' (PInt huge) True (PInt 4) ''herbivore''
     ''oak'' n = Inr (giant_deer, n + 1)"
  "Plant_init (PyStr ''P005'') ''Sprout'' (PFloat (Fin (25 / 2))) True (PFloat (Fin (1 / 4))) n
     = Inr (sprout, n + 1)"
  by (simp_all add: Plant_init_def Animal_init_def Herbivore_init_def Carnivore_init_def
      Organism_init_def example_defs)

lemma choice_index_mem: "xs \<noteq> [] \<Longrightarrow> xs ! (k mod length xs) \<in> set xs"
  by simp

section \<open>The claims\<close>

subsection \<open>C1: a carnivore's hunt\<close>

text \<open>
  Claim C1, as the code has it. For every Carnivore, \<^verbatim>\<open>hunt(candidates)\<close> returns
  \<^verbatim>\<open>False\<close> and changes nothing if the carnivore is dead or no living Herbivore is among
  the candidates. Otherwise the target is the living herbivore candidate at the index
  that \<^verbatim>\<open>random.choice\<close> draws, and the success chance
  \<^verbatim>\<open>hunting_efficiency * (speed / (target.speed + 1))\<close> is computed in Python arithmetic:
  that raises \<^verbatim>\<open>ZeroDivisionError\<close> when the target's speed is the integer \<open>-1\<close>, it can
  raise \<^verbatim>\<open>OverflowError\<close> on an integer too large for a float, and then nothing is
  changed. Otherwise, for every draw \<open>r\<close>: if \<^verbatim>\<open>r <= chance\<close>, the gain
  \<^verbatim>\<open>min(target.energy * 0.7, 50)\<close> and the sum of the carnivore's energy and the gain are
  computed (an \<^verbatim>\<open>OverflowError\<close> there changes nothing), the setter stores
  \<^verbatim>\<open>max(0, sum)\<close> as the carnivore's energy, the target's energy becomes 0 and the target
  dies, the feeding counter grows by one, no other object changes, and the result is
  \<^verbatim>\<open>True\<close>; otherwise the carnivore's energy minus 5 goes through the setter, which never
  raises, and the result is \<^verbatim>\<open>False\<close>. No other exception leaves the call.
\<close>

theorem Carnivore_hunt_outcome:
  assumes "cls (h self) = Carnivore"
  shows
  "(let available = filter (\<lambda>org. isinstance (h org) Herbivore \<and> is_alive (h org)) prey;
        t = available ! (ints g 0 mod length available);
        r = PFloat (Fin (floats g 0));
        (res, g', h') = Carnivore_hunt P self prey g h
    in if \<not> is_alive (h self) \<or> available = [] then res = Inr False \<and> h' = h
       else t \<in> set prey \<and> isinstance (h t) Herbivore \<and> is_alive (h t) \<and>
         (speed (h t) = PInt (- 1) \<longrightarrow> res = Inl ZeroDivisionError) \<and>
         (case success_chance P (h self) (h t) of
            Inl err \<Rightarrow> res = Inl err \<and> h' = h
          | Inr chance \<Rightarrow>
              if py_le r chance then
                (case hunt_gain P (h t) of
                   Inl err \<Rightarrow> res = Inl err \<and> h' = h
                 | Inr gain \<Rightarrow>
                     (case py_add P (energy (h self)) gain of
                        Inl err \<Rightarrow> res = Inl err \<and> h' = h
                      | Inr v \<Rightarrow>
                          res = Inr True \<and>
                          energy (h' self) = py_max (PInt 0) v \<and>
                          energy (h' t) = PInt 0 \<and> \<not> is_alive (h' t) \<and>
                          food_eaten (h' self) = food_eaten (h self) + 1 \<and>
                          (\<forall>r'. r' \<noteq> self \<and> r' \<noteq> t \<longrightarrow> h' r' = h r')))
              else
                (case py_sub P (energy (h self)) (PInt 5) of
                   Inl err \<Rightarrow> False
                 | Inr v \<Rightarrow> res = Inr False \<and> h' = h(self := energy_setter v (h self)))))
   \<and> (\<forall>err. fst (Carnivore_hunt P self prey g h) = Inl err
          \<longrightarrow> err = ZeroDivisionError \<or> err = OverflowError)
   \<and> (\<forall>hunter target divisor ratio.
          py_add P (speed target) (PInt 1) = Inr divisor
          \<and> py_truediv P (speed hunter) divisor = Inr ratio
          \<longrightarrow> success_chance P hunter target = py_mul P (hunting_efficiency hunter) ratio)
   \<and> (\<forall>target share.
          py_mul P (energy target) (PFloat (literal P (7 / 10))) = Inr share
          \<longrightarrow> hunt_gain P target = Inr (py_min share (PInt 50)))"
proof -
  define available where
    "available = filter (\<lambda>org. isinstance (h org) Herbivore \<and> is_alive (h org)) prey"
  define t where "t = available ! (ints g 0 mod length available)"
  have formulas:
    "\<forall>hunter target divisor ratio.
          py_add P (speed target) (PInt 1) = Inr divisor
          \<and> py_truediv P (speed hunter) divisor = Inr ratio
          \<longrightarrow> success_chance P hunter target = py_mul P (hunting_efficiency hunter) ratio"
    "\<forall>target share.
          py_mul P (energy target) (PFloat (literal P (7 / 10))) = Inr share
          \<longrightarrow> hunt_gain P target = Inr (py_min share (PInt 50))"
    by (simp_all add: success_chance_def hunt_gain_def)
  have errors: "\<forall>err. fst (Carnivore_hunt P self prey g h) = Inl err
          \<longrightarrow> err = ZeroDivisionError \<or> err = OverflowError"
    using Carnivore_hunt_error [of P self prey g h] by blast
  have body:
    "if \<not> is_alive (h self) \<or> available = []
     then fst (Carnivore_hunt P self prey g h) = Inr False
          \<and> snd (snd (Carnivore_hunt P self prey g h)) = h
     else t \<in> set prey \<and> isinstance (h t) Herbivore \<and> is_alive (h t) \<and>
         (speed (h t) = PInt (- 1) \<longrightarrow> fst (Carnivore_hunt P self prey g h) = Inl ZeroDivisionError) \<and>
         (case success_chance P (h self) (h t) of
            Inl err \<Rightarrow> fst (Carnivore_hunt P self prey g h) = Inl err
                      \<and> snd (snd (Carnivore_hunt P self prey g h)) = h
          | Inr chance \<Rightarrow>
              if py_le (PFloat (Fin (floats g 0))) chance then
                (case hunt_gain P (h t) of
                   Inl err \<Rightarrow> fst (Carnivore_hunt P self prey g h) = Inl err
                             \<and> snd (snd (Carnivore_hunt P self prey g h)) = h
                 | Inr gain \<Rightarrow>
                     (case py_add P (energy (h self)) gain of
                        Inl err \<Rightarrow> fst (Carnivore_hunt P self prey g h) = Inl err
                                  \<and> snd (snd (Carnivore_hunt P self prey g h)) = h
                      | Inr v \<Rightarrow>
                          fst (Carnivore_hunt P self prey g h) = Inr True \<and>
                          energy (snd (snd (Carnivore_hunt P self prey g h)) self)
                            = py_max (PInt 0) v \<and>
                          energy (snd (snd (Carnivore_hunt P self prey g h)) t) = PInt 0 \<and>
                          \<not> is_alive (snd (snd (Carnivore_hunt P self prey g h)) t) \<and>
                          food_eaten (snd (snd (Carnivore_hunt P self prey g h)) self)
                            = food_eaten (h self) + 1 \<and>
                          (\<forall>r'. r' \<noteq> self \<and> r' \<noteq> t
                             \<longrightarrow> snd (snd (Carnivore_hunt P self prey g h)) r' = h r')))
              else
                (case py_sub P (energy (h self)) (PInt 5) of
                   Inl err \<Rightarrow> False
                 | Inr v \<Rightarrow> fst (Carnivore_hunt P self prey g h) = Inr False
                     \<and> snd (snd (Carnivore_hunt P self prey g h))
                         = h(self := energy_setter v (h self))))"
  proof (cases "\<not> is_alive (h self) \<or> available = []")
    case True
    then show ?thesis
      by (auto simp add: Carnivore_hunt_def Let_def available_def)
  next
    case False
    then have "t \<in> set available"
      unfolding t_def by (simp add: choice_index_mem)
    then have t: "t \<in> set prey" "isinstance (h t) Herbivore" "is_alive (h t)"
      by (simp_all add: available_def)
    then have neq: "t \<noteq> self"
      using assms by (auto simp add: isinstance_def)
    have choice: "random_choice available g = Inr (t, g\<lparr>ints := \<lambda>n. ints g (Suc n)\<rparr>)"
      using False by (simp add: random_choice_def t_def)
    obtain v5 where v5: "py_sub P (energy (h self)) (PInt 5) = Inr v5"
      using py_sub_small [of 5 P "energy (h self)"] by auto
    have zero: "speed (h t) = PInt (- 1)
        \<Longrightarrow> success_chance P (h self) (h t) = Inl ZeroDivisionError"
      by (cases "speed (h self)") (simp_all add: success_chance_def py_add_def)
    have run: "Carnivore_hunt P self prey g h =
        (case success_chance P (h self) (h t) of
           Inl err \<Rightarrow> (Inl err, g\<lparr>ints := \<lambda>n. ints g (Suc n)\<rparr>, h)
         | Inr chance \<Rightarrow>
             if py_le (PFloat (Fin (floats g 0))) chance then
               (case hunt_gain P (h t) of
                  Inl err \<Rightarrow> (Inl err, g\<lparr>ints := \<lambda>n. ints g (Suc n),
                                           floats := \<lambda>n. floats g (Suc n)\<rparr>, h)
                | Inr gain \<Rightarrow>
                    (case py_add P (energy (h self)) gain of
                       Inl err \<Rightarrow> (Inl err, g\<lparr>ints := \<lambda>n. ints g (Suc n),
                                                floats := \<lambda>n. floats g (Suc n)\<rparr>, h)
                     | Inr v \<Rightarrow>
                         (Inr True, g\<lparr>ints := \<lambda>n. ints g (Suc n),
                                      floats := \<lambda>n. floats g (Suc n)\<rparr>,
                          h(self := (energy_setter v (h self))
                                      \<lparr>food_eaten := food_eaten (h self) + 1\<rparr>,
                            t := energy_setter (PInt 0) (h t)))))
             else (Inr False, g\<lparr>ints := \<lambda>n. ints g (Suc n),
                                 floats := \<lambda>n. floats g (Suc n)\<rparr>,
                   h(self := energy_setter v5 (h self))))"
      using False choice neq v5
      by (auto simp add: Carnivore_hunt_def Let_def available_def [symmetric] random_random_def
          consume_energy_def energy_setter_fields fun_upd_twist
          split: sum.splits)
    show ?thesis
      using False t neq v5 zero
      by (auto simp add: run energy_setter_fields py_le_zero_max py_max_nonpositive
          py_le_def split: sum.splits)
  qed
  show ?thesis
    using body formulas errors
    unfolding available_def [symmetric] t_def [symmetric] Let_def
    by (simp add: available_def [symmetric] t_def [symmetric] case_prod_beta)
qed

text \<open>The wolf (efficiency 0.75, speed 5, energy 80) hunts the rabbit (speed 3,
  energy 70) among an oak and a dead herbivore, with the draw 0.5 below the chance
  \<open>0.75 * (5 / 4)\<close>; it gains \<open>min (70 * 0.7) 50 = 49.0\<close>.\<close>

theorem Carnivore_hunt_outcome_witness:
  "cls (forest 2) = Carnivore
   \<and> fst (Carnivore_hunt exact 2 [0, 4, 1] steady forest) = Inr True
   \<and> energy (snd (snd (Carnivore_hunt exact 2 [0, 4, 1] steady forest)) 2) = PFloat (Fin 129)
   \<and> energy (snd (snd (Carnivore_hunt exact 2 [0, 4, 1] steady forest)) 1) = PInt 0
   \<and> \<not> is_alive (snd (snd (Carnivore_hunt exact 2 [0, 4, 1] steady forest)) 1)
   \<and> food_eaten (snd (snd (Carnivore_hunt exact 2 [0, 4, 1] steady forest)) 2) = 1"
proof -
  have pre: "cls (forest 2) = Carnivore"
    by (simp add: example_defs)
  from Carnivore_hunt_outcome
    [where h = forest and self = 2 and prey = "[0, 4, 1]" and g = steady and P = exact]
  show ?thesis
    using pre
    by (simp add: eval_defs success_chance_def hunt_gain_def case_prod_beta)
qed

text \<open>As stated without the exceptions, the claim fails: the wolf hunting a living
  herbivore of speed \<open>-1\<close> neither succeeds nor fails, it raises; and so does a
  carnivore of speed \<open>10 ** 400\<close> hunting the rabbit.\<close>

theorem Carnivore_hunt_counterexample:
  "fst (Carnivore_hunt exact 2 [5] steady forest) = Inl ZeroDivisionError
   \<and> fst (Carnivore_hunt exact 10 [1] steady forest) = Inl OverflowError"
  by (simp add: Carnivore_hunt_def success_chance_def eval_defs)

subsection \<open>C2: a herbivore's foraging\<close>

text \<open>
  Claim C2, as the code has it. For every Herbivore, \<^verbatim>\<open>hunt(candidates)\<close> returns
  \<^verbatim>\<open>False\<close> and changes nothing if the herbivore is dead or no living Plant is among the
  candidates. Otherwise the target is drawn by \<^verbatim>\<open>random.choice\<close> from the living plant
  candidates whose lower-cased species name equals the lower-cased preference when there
  is one, else from all living plant candidates. With
  \<^verbatim>\<open>gain = min(target.energy, 25)\<close>, the sum of the herbivore's energy and the gain is
  computed in Python arithmetic; if that raises \<^verbatim>\<open>OverflowError\<close> nothing is changed.
  Otherwise the setter stores \<^verbatim>\<open>max(0, sum)\<close> as the herbivore's energy and
  \<^verbatim>\<open>max(0, target.energy - gain)\<close> as the plant's (the subtraction never raises), the
  feeding counter grows by one, no other object changes, and the result is \<^verbatim>\<open>True\<close>.
  When both energies are integers \<open>a\<close> and \<open>b\<close>, the call returns \<^verbatim>\<open>True\<close>, the plant
  ends at exactly \<open>b - min b 25\<close> and the herbivore at \<open>max 0 (a + min b 25)\<close>.
\<close>

theorem Herbivore_hunt_outcome:
  assumes "cls (h self) = Herbivore"
  shows
  "(let available = filter (\<lambda>org. isinstance (h org) Plant \<and> is_alive (h org)) prey;
        preferred = filter (\<lambda>p. str_lower P (species_name (h p))
                                 = str_lower P (plant_preference (h self))) available;
        pool = (if preferred \<noteq> [] then preferred else available);
        t = pool ! (ints g 0 mod length pool);
        gain = py_min (energy (h t)) (PInt 25);
        (res, g', h') = Herbivore_hunt P self prey g h
    in if \<not> is_alive (h self) \<or> available = [] then res = Inr False \<and> h' = h
       else t \<in> set prey \<and> isinstance (h t) Plant \<and> is_alive (h t) \<and>
         (preferred \<noteq> [] \<longrightarrow>
            str_lower P (species_name (h t)) = str_lower P (plant_preference (h self))) \<and>
         (case py_add P (energy (h self)) gain of
            Inl err \<Rightarrow> res = Inl err \<and> err = OverflowError \<and> h' = h
          | Inr v1 \<Rightarrow>
              (case py_sub P (energy (h t)) gain of
                 Inl err \<Rightarrow> False
               | Inr v2 \<Rightarrow>
                   res = Inr True \<and>
                   energy (h' self) = py_max (PInt 0) v1 \<and>
                   energy (h' t) = py_max (PInt 0) v2 \<and>
                   food_eaten (h' self) = food_eaten (h self) + 1 \<and>
                   (\<forall>r'. r' \<noteq> self \<and> r' \<noteq> t \<longrightarrow> h' r' = h r'))) \<and>
         (\<forall>a b. energy (h self) = PInt a \<and> energy (h t) = PInt b \<longrightarrow>
            res = Inr True \<and>
            energy (h' self) = PInt (max 0 (a + min b 25)) \<and>
            energy (h' t) = PInt (b - min b 25)))"
proof -
  define available where
    "available = filter (\<lambda>org. isinstance (h org) Plant \<and> is_alive (h org)) prey"
  define preferred where
    "preferred = filter (\<lambda>p. str_lower P (species_name (h p))
                                 = str_lower P (plant_preference (h self))) available"
  define pool where "pool = (if preferred \<noteq> [] then preferred else available)"
  define t where "t = pool ! (ints g 0 mod length pool)"
  define gain where "gain = py_min (energy (h t)) (PInt 25)"
  have body:
    "if \<not> is_alive (h self) \<or> available = []
     then fst (Herbivore_hunt P self prey g h) = Inr False
          \<and> snd (snd (Herbivore_hunt P self prey g h)) = h
     else t \<in> set prey \<and> isinstance (h t) Plant \<and> is_alive (h t) \<and>
         (preferred \<noteq> [] \<longrightarrow>
            str_lower P (species_name (h t)) = str_lower P (plant_preference (h self))) \<and>
         (case py_add P (energy (h self)) gain of
            Inl err \<Rightarrow> fst (Herbivore_hunt P self prey g h) = Inl err \<and> err = OverflowError
                      \<and> snd (snd (Herbivore_hunt P self prey g h)) = h
          | Inr v1 \<Rightarrow>
              (case py_sub P (energy (h t)) gain of
                 Inl err \<Rightarrow> False
               | Inr v2 \<Rightarrow>
                   fst (Herbivore_hunt P self prey g h) = Inr True \<and>
                   energy (snd (snd (Herbivore_hunt P self prey g h)) self) = py_max (PInt 0) v1 \<and>
                   energy (snd (snd (Herbivore_hunt P self prey g h)) t) = py_max (PInt 0) v2 \<and>
                   food_eaten (snd (snd (Herbivore_hunt P self prey g h)) self)
                     = food_eaten (h self) + 1 \<and>
                   (\<forall>r'. r' \<noteq> self \<and> r' \<noteq> t
                      \<longrightarrow> snd (snd (Herbivore_hunt P self prey g h)) r' = h r'))) \<and>
         (\<forall>a b. energy (h self) = PInt a \<and> energy (h t) = PInt b \<longrightarrow>
            fst (Herbivore_hunt P self prey g h) = Inr True \<and>
            energy (snd (snd (Herbivore_hunt P self prey g h)) self)
              = PInt (max 0 (a + min b 25)) \<and>
            energy (snd (snd (Herbivore_hunt P self prey g h)) t) = PInt (b - min b 25))"
  proof (cases "\<not> is_alive (h self) \<or> available = []")
    case True
    then show ?thesis
      by (auto simp add: Herbivore_hunt_def Let_def available_def)
  next
    case False
    then have "pool \<noteq> []"
      by (simp add: pool_def)
    then have mem: "t \<in> set pool"
      unfolding t_def by (simp add: choice_index_mem)
    then have "t \<in> set available"
      by (auto simp add: pool_def preferred_def split: if_splits)
    then have t: "t \<in> set prey" "isinstance (h t) Plant" "is_alive (h t)"
      by (simp_all add: available_def)
    then have neq: "t \<noteq> self"
      using assms by (auto simp add: isinstance_def)
    have pref: "preferred \<noteq> [] \<Longrightarrow>
        str_lower P (species_name (h t)) = str_lower P (plant_preference (h self))"
      using mem by (simp add: pool_def preferred_def)
    have choice: "random_choice pool g = Inr (t, g\<lparr>ints := \<lambda>n. ints g (Suc n)\<rparr>)"
      using \<open>pool \<noteq> []\<close> by (simp add: random_choice_def t_def)
    obtain v2 where v2: "py_sub P (energy (h t)) gain = Inr v2"
      using py_sub_min [of P "energy (h t)"] by (auto simp add: gain_def)
    have run: "Herbivore_hunt P self prey g h =
        (case py_add P (energy (h self)) gain of
           Inl err \<Rightarrow> (Inl err, g\<lparr>ints := \<lambda>n. ints g (Suc n)\<rparr>, h)
         | Inr v1 \<Rightarrow>
             (Inr True, g\<lparr>ints := \<lambda>n. ints g (Suc n)\<rparr>,
              h(self := (energy_setter v1 (h self))\<lparr>food_eaten := food_eaten (h self) + 1\<rparr>,
                t := energy_setter v2 (h t))))"
      using False choice neq v2
      by (auto simp add: Herbivore_hunt_def Let_def available_def [symmetric]
          preferred_def [symmetric] pool_def [symmetric] gain_def [symmetric]
          energy_setter_fields fun_upd_twist split: sum.splits)
    have ints: "fst (Herbivore_hunt P self prey g h) = Inr True \<and>
            energy (snd (snd (Herbivore_hunt P self prey g h)) self)
              = PInt (max 0 (a + min b 25)) \<and>
            energy (snd (snd (Herbivore_hunt P self prey g h)) t) = PInt (b - min b 25)"
      if e: "energy (h self) = PInt a \<and> energy (h t) = PInt b" for a b
    proof -
      have gain: "gain = PInt (min b 25)"
        using e by (simp add: gain_def py_int_compare min.commute)
      have add: "py_add P (energy (h self)) gain = Inr (PInt (a + min b 25))"
        using e by (simp add: gain py_int_arith)
      have sub: "v2 = PInt (b - min b 25)"
        using e v2 by (simp add: gain py_int_arith)
      have nonneg: "max 0 (b - min b 25) = b - min b 25"
        by (simp add: min_def)
      show ?thesis
        using neq by (simp add: run add sub energy_setter_fields py_int_compare nonneg)
    qed
    have general: "case py_add P (energy (h self)) gain of
            Inl err \<Rightarrow> fst (Herbivore_hunt P self prey g h) = Inl err \<and> err = OverflowError
                      \<and> snd (snd (Herbivore_hunt P self prey g h)) = h
          | Inr v1 \<Rightarrow>
              (case py_sub P (energy (h t)) gain of
                 Inl err \<Rightarrow> False
               | Inr v2 \<Rightarrow>
                   fst (Herbivore_hunt P self prey g h) = Inr True \<and>
                   energy (snd (snd (Herbivore_hunt P self prey g h)) self) = py_max (PInt 0) v1 \<and>
                   energy (snd (snd (Herbivore_hunt P self prey g h)) t) = py_max (PInt 0) v2 \<and>
                   food_eaten (snd (snd (Herbivore_hunt P self prey g h)) self)
                     = food_eaten (h self) + 1 \<and>
                   (\<forall>r'. r' \<noteq> self \<and> r' \<noteq> t
                      \<longrightarrow> snd (snd (Herbivore_hunt P self prey g h)) r' = h r'))"
      using neq v2
      by (auto simp add: run energy_setter_fields dest: py_add_error split: sum.splits)
    show ?thesis
      using False t pref general ints by simp
  qed
  show ?thesis
    using body
    unfolding available_def [symmetric] preferred_def [symmetric] pool_def [symmetric]
      t_def [symmetric] gain_def [symmetric] Let_def
    by (simp add: case_prod_beta)
qed

text \<open>The rabbit, which prefers grass, among the oak, the wolf and the grass: it eats
  the grass, not the oak.\<close>

theorem Herbivore_hunt_outcome_witness:
  "cls (forest 1) = Herbivore
   \<and> fst (Herbivore_hunt exact 1 [0, 2, 3] steady forest) = Inr True
   \<and> energy (snd (snd (Herbivore_hunt exact 1 [0, 2, 3] steady forest)) 1) = PInt 95
   \<and> energy (snd (snd (Herbivore_hunt exact 1 [0, 2, 3] steady forest)) 3) = PInt 25
   \<and> energy (snd (snd (Herbivore_hunt exact 1 [0, 2, 3] steady forest)) 0) = PInt 100
   \<and> food_eaten (snd (snd (Herbivore_hunt exact 1 [0, 2, 3] steady forest)) 1) = 1"
proof -
  have pre: "cls (forest 1) = Herbivore"
    by (simp add: example_defs)
  from Herbivore_hunt_outcome
    [where h = forest and self = 1 and prey = "[0, 2, 3]" and g = steady and P = exact]
  show ?thesis
    using pre
    by (simp add: eval_defs ascii_lower_def case_prod_beta)
qed

text \<open>As an exact transfer that always succeeds the claim fails: a living herbivore
  of energy \<open>-50\<close> that eats 25 from the oak ends at 0, not at \<open>-25\<close>; and a herbivore
  of energy \<open>10 ** 400\<close> that forages a plant of energy 12.5 raises.\<close>

theorem Herbivore_hunt_counterexample:
  "fst (Herbivore_hunt exact 6 [0] steady forest) = Inr True
   \<and> energy (forest 6) = PInt (- 50) \<and> py_min (energy (forest 0)) (PInt 25) = PInt 25
   \<and> energy (snd (snd (Herbivore_hunt exact 6 [0] steady forest)) 6) = PInt 0
   \<and> energy (snd (snd (Herbivore_hunt exact 6 [0] steady forest)) 6) \<noteq> PInt (- 50 + 25)
   \<and> fst (Herbivore_hunt exact 11 [12] steady forest) = Inl OverflowError"
  by (simp add: Herbivore_hunt_def eval_defs ascii_lower_def)

subsection \<open>C4: energy is never negative after a mutation\<close>

text \<open>
  Claim C4. For every organism whose energy is non-negative, no sequence of calls of the
  public interface leaves it with a negative energy, whether the calls return or raise;
  an assignment through the energy setter and \<^verbatim>\<open>consume_energy\<close> leave a non-negative
  energy; assigning a value below or equal to zero stores exactly 0 and sets
  \<open>is_alive\<close> to false; and \<^verbatim>\<open>Organism("P1", "Test", 50, True)\<close>, after the assignment
  \<^verbatim>\<open>energy = -10\<close>, has energy 0 and is not alive.
\<close>

theorem energy_never_negative:
  assumes "py_le (PInt 0) (energy (h r))"
  shows "py_le (PInt 0) (energy (snd (perform_all P ops (g, h)) r))
    \<and> py_le (PInt 0) (energy (energy_setter v (h r)))
    \<and> py_le (PInt 0) (energy (snd (perform P (ConsumeEnergy r amount) (g, h)) r))
    \<and> (py_le v (PInt 0) \<longrightarrow>
          energy (energy_setter v (h r)) = PInt 0 \<and> \<not> is_alive (energy_setter v (h r)))
    \<and> (\<exists>p1 m. Organism_init (PyStr ''P1'') ''Test'' (PInt 50) True n = Inr (p1, m)
          \<and> energy p1 = PInt 50 \<and> is_alive p1
          \<and> energy (energy_setter (PInt (- 10)) p1) = PInt 0
          \<and> \<not> is_alive (energy_setter (PInt (- 10)) p1))"
proof -
  have "py_le (PInt 0) (energy (snd (perform_all P ops (g, h)) r))"
    using assms mutated_perform_all [of h P ops g] by (simp add: mutated_def)
  moreover have "py_le (PInt 0) (energy (snd (perform P (ConsumeEnergy r amount) (g, h)) r))"
    using assms mutated_perform [of h P "ConsumeEnergy r amount" g] by (simp add: mutated_def)
  moreover have "\<exists>p1 m. Organism_init (PyStr ''P1'') ''Test'' (PInt 50) True n = Inr (p1, m)
          \<and> energy p1 = PInt 50 \<and> is_alive p1
          \<and> energy (energy_setter (PInt (- 10)) p1) = PInt 0
          \<and> \<not> is_alive (energy_setter (PInt (- 10)) p1)"
    by (simp add: Organism_init_def energy_setter_fields py_int_compare)
  ultimately show ?thesis
    by (simp add: energy_setter_fields py_le_zero_max py_max_nonpositive py_int_compare)
qed

text \<open>The rabbit of the forest, through a starving, a hunt and a simulated day.\<close>

theorem energy_never_negative_witness:
  "py_le (PInt 0) (energy (forest 1))
   \<and> py_le (PInt 0) (energy (snd (perform_all exact
         [ConsumeEnergy 1 (PInt 100), Hunt 2 [1], SimulateDay forest_env] (steady, forest)) 1))
   \<and> energy (energy_setter (PInt (- 10)) (forest 1)) = PInt 0
   \<and> \<not> is_alive (energy_setter (PInt (- 10)) (forest 1))"
proof -
  have pre: "py_le (PInt 0) (energy (forest 1))"
    by (simp add: example_defs py_int_compare)
  have neg: "py_le (PInt (- 10)) (PInt 0)"
    by (simp add: py_int_compare)
  from energy_never_negative
    [where h = forest and r = 1 and v = "PInt (- 10)" and g = steady and P = exact
       and ops = "[ConsumeEnergy 1 (PInt 100), Hunt 2 [1], SimulateDay forest_env]"]
  show ?thesis
    using pre neg by simp
qed

subsection \<open>C5: death is permanent\<close>

text \<open>
  Claim C5. For every organism whose \<open>is_alive\<close> flag is false, no sequence of the public
  operations (energy assignment, \<^verbatim>\<open>consume_energy\<close>, \<^verbatim>\<open>photosynthesize\<close>, \<^verbatim>\<open>hunt\<close>,
  \<^verbatim>\<open>interact\<close>, \<^verbatim>\<open>simulate_day\<close>) makes \<open>is_alive\<close> true again, whether the calls
  return or raise; raising a dead organism's energy above zero stores that energy and
  does not revive it.
\<close>

theorem death_is_permanent:
  assumes "\<not> is_alive (h r)"
  shows "\<not> is_alive (snd (perform_all P ops (g, h)) r)
    \<and> (py_lt (PInt 0) v \<longrightarrow>
          energy (energy_setter v (h r)) = v \<and> \<not> is_alive (energy_setter v (h r)))"
  using assms mutated_perform_all [of h P ops g]
  by (auto simp add: mutated_def energy_setter_fields py_max_def)

text \<open>The dead herbivore of the tests, fed and simulated.\<close>

theorem death_is_permanent_witness:
  "\<not> is_alive (forest 4)
   \<and> \<not> is_alive (snd (perform_all exact
        [AssignEnergy 4 (PInt 60), Interact 0 4, Hunt 4 [0, 3], Photosynthesize 0 ''sunny'',
         ConsumeEnergy 4 (PInt 1), SimulateDay forest_env] (steady, forest)) 4)
   \<and> energy (energy_setter (PInt 60) (forest 4)) = PInt 60
   \<and> \<not> is_alive (energy_setter (PInt 60) (forest 4))"
proof -
  have pre: "\<not> is_alive (forest 4)"
    by (simp add: example_defs)
  have pos: "py_lt (PInt 0) (PInt 60)"
    by (simp add: py_int_compare)
  from death_is_permanent
    [where h = forest and r = 4 and v = "PInt 60" and g = steady and P = exact
       and ops = "[AssignEnergy 4 (PInt 60), Interact 0 4, Hunt 4 [0, 3],
         Photosynthesize 0 ''sunny'', ConsumeEnergy 4 (PInt 1), SimulateDay forest_env]"]
  show ?thesis
    using pre pos by simp
qed

subsection \<open>C6: the day counter\<close>




subsection \<open>C7: adding an organism\<close>

text \<open>
  Claim C7. For every Environment and organism, \<^verbatim>\<open>add_organism\<close> returns \<^verbatim>\<open>False\<close> and
  leaves the environment unchanged when some organism of the collection has the same
  identifier, and otherwise appends the organism and returns \<^verbatim>\<open>True\<close>; hence after
  adding an organism, adding one with the same identifier is rejected and leaves the
  collection, its size and the population counts as they were.
\<close>

theorem add_organism_rejects_duplicates:
  "(if \<exists>org \<in> set (organisms env). id' (h org) = id' (h new)
    then add_organism new env h = (False, env)
    else add_organism new env h = (True, env\<lparr>organisms := organisms env @ [new]\<rparr>))
   \<and> (id' (h second) = id' (h first) \<longrightarrow>
        (let env1 = snd (add_organism first env h);
             (ok, env2) = add_organism second env1 h
         in \<not> ok \<and> env2 = env1 \<and> length (organisms env2) = length (organisms env1)
            \<and> get_population_count env2 h = get_population_count env1 h))"
proof -
  have "id' (h second) = id' (h first) \<Longrightarrow>
      \<exists>org \<in> set (organisms (snd (add_organism first env h))). id' (h org) = id' (h second)"
    by (auto simp add: add_organism_def list_ex_iff)
  then show ?thesis
    by (auto simp add: add_organism_def list_ex_iff Let_def)
qed

text \<open>The scenario of the specification: an environment with the plant P001, and a
  second plant with the identifier P001.\<close>

theorem add_organism_rejects_duplicates_witness:
  "id' (forest 8) = id' (forest 0)
   \<and> add_organism 0 (Environment_init ''Forest'' ''sunny'') forest
        = (True, (Environment_init ''Forest'' ''sunny'')\<lparr>organisms := [0]\<rparr>)
   \<and> add_organism 8 ((Environment_init ''Forest'' ''sunny'')\<lparr>organisms := [0]\<rparr>) forest
        = (False, (Environment_init ''Forest'' ''sunny'')\<lparr>organisms := [0]\<rparr>)
   \<and> get_population_count ((Environment_init ''Forest'' ''sunny'')\<lparr>organisms := [0]\<rparr>) forest
        = (1, 0, 0)"
  using add_organism_rejects_duplicates
      [of "Environment_init ''Forest'' ''sunny''" forest 0 8 0]
    add_organism_rejects_duplicates
      [of "(Environment_init ''Forest'' ''sunny'')\<lparr>organisms := [0]\<rparr>" forest 8 8 0]
  by (simp add: Environment_init_def get_population_count_def example_defs isinstance_def)

subsection \<open>C8: a plant meets a dead herbivore\<close>

text \<open>
  Claim C8 says that \<^verbatim>\<open>Plant.interact\<close> moves no energy and returns \<^verbatim>\<open>False\<close> when
  the herbivore is dead. The code tests only the class of the other organism and the
  plant's own \<open>is_alive\<close>: the living oak (energy 100) and the dead herbivore of the
  tests (energy 0) end at 75 and 25, and the call returns \<^verbatim>\<open>True\<close>.
\<close>

theorem Plant_interact_feeds_dead_herbivore:
  "\<not> is_alive (forest 4) \<and> isinstance (forest 4) Herbivore
   \<and> fst (Plant_interact P 0 4 forest) = Inr True
   \<and> energy (snd (Plant_interact P 0 4 forest) 0) = PInt 75
   \<and> energy (snd (Plant_interact P 0 4 forest) 4) = PInt 25
   \<and> \<not> is_alive (snd (Plant_interact P 0 4 forest) 4)"
  by (simp add: Plant_interact_def example_defs isinstance_def Let_def energy_setter_def
      py_int_arith py_int_compare)

subsection \<open>C9: the base hunt\<close>

text \<open>
  Claim C9 says that \<^verbatim>\<open>Animal.hunt\<close> changes nothing and returns the boolean false.
  The code changes nothing, and returns \<^verbatim>\<open>None\<close>, which is not the boolean
  \<^verbatim>\<open>False\<close>: so does a call on an instance of \<^verbatim>\<open>Animal\<close> through method lookup.
\<close>

theorem Animal_hunt_returns_None:
  "Animal_hunt self prey h = (RNone, h)
   \<and> fst (Animal_hunt self prey h) \<noteq> RBool False
   \<and> hunt P 7 [0, 1] steady forest = (Inr RNone, steady, forest)"
  by (simp add: Animal_hunt_def hunt_def example_defs)

subsection \<open>C10: the constructor validates the identifier only\<close>

text \<open>
  Claim C10. \<^verbatim>\<open>Organism.__init__\<close> raises \<^verbatim>\<open>InvalidInputException\<close> if and only if the
  identifier is not a non-empty string; with a valid identifier it succeeds for every
  species name, energy and alive flag, and stores them as given: an organism of negative
  energy, or alive with energy 0, can be constructed.
\<close>

theorem Organism_init_validation:
  "(Organism_init ident species e alive n = Inl InvalidInputException)
      = (\<not> (\<exists>s. ident = PyStr s \<and> s \<noteq> []))
   \<and> ((\<exists>s. ident = PyStr s \<and> s \<noteq> []) \<longrightarrow>
        (\<exists>org. Organism_init ident species e alive n = Inr (org, n + 1)
           \<and> cls org = Organism \<and> PyStr (id' org) = ident \<and> species_name org = species
           \<and> energy org = e \<and> is_alive org = alive))"
  by (cases ident) (auto simp add: Organism_init_def)

text \<open>The two rejected identifiers of the tests, and the two unvalidated constructions.\<close>

theorem Organism_init_validation_witness:
  "Organism_init (PyStr []) ''Species'' (PInt 50) True 0 = Inl InvalidInputException
   \<and> Organism_init (PyInt 123) ''Species'' (PInt 50) True 0 = Inl InvalidInputException
   \<and> (\<exists>org. Organism_init (PyStr ''O1'') ''Species'' (PInt (- 5)) True 0 = Inr (org, 1)
         \<and> energy org = PInt (- 5) \<and> is_alive org)
   \<and> (\<exists>org. Organism_init (PyStr ''O2'') ''Species'' (PInt 0) True 0 = Inr (org, 1)
         \<and> energy org = PInt 0 \<and> is_alive org)"
  using Organism_init_validation [of "PyStr []" "''Species''" "PInt 50" True 0]
    Organism_init_validation [of "PyInt 123" "''Species''" "PInt 50" True 0]
    Organism_init_validation [of "PyStr ''O1''" "''Species''" "PInt (- 5)" True 0]
    Organism_init_validation [of "PyStr ''O2''" "''Species''" "PInt 0" True 0]
  by auto

end
